theory Spec2Isabelle
  imports Main "HOL-Library.Word"
begin

section \<open>Basic types of the block producer\<close>

text \<open>
  Balances, prices and incomes are Go \<^verbatim>\<open>uint64\<close>: 64-bit words whose \<open>+\<close>, \<open>-\<close> and
  \<open>*\<close> wrap around. An account address is a 32-byte hash, a database identifier is
  a string. A Go pointer that may be \<^verbatim>\<open>nil\<close> is an \<open>option\<close>.
\<close>

type_synonym u64 = "64 word"
type_synonym address = "256 word"
type_synonym database_id = string
type_synonym node_id = string
type_synonym pubkey = nat
type_synonym float64 = "64 word"

text \<open>
  Modelled from the spec: \<^verbatim>\<open>pi.AccountNonce\<close> is declared outside the files at hand. The
  source converts it with \<^verbatim>\<open>uint32(tx.Nonce)\<close> and the spec derives the database
  identifier from the nonce as a 32-bit unsigned integer, so the nonce is a 32-bit word:
  \<^verbatim>\<open>dst.NextNonce++\<close> wraps from \<open>2^32 - 1\<close> to 0.
\<close>

type_synonym account_nonce = "32 word"

text \<open>
  Modelled from the spec: the token types (an account holds exactly the two balances
  Particle and Wave), the user status and the transaction types are declared in
  packages outside the files at hand.
\<close>

datatype token_type = Particle | Wave

datatype user_status = Normal | Arrears

type_synonym user_permission = int

definition Admin :: user_permission where
  "Admin = 0"

datatype transaction_type =
    TransactionTypeBilling
  | TransactionTypeTransfer
  | TransactionTypeBaseAccount
  | TransactionTypeCreateDatabase
  | TransactionTypeProvideService
  | TransactionTypeUpdatePermission
  | TransactionTypeIssueKeys
  | TransactionTypeUpdateBilling
  | TransactionTypeOther

text \<open>
  The error kinds. A wrapped error (\<^verbatim>\<open>errors.Wrap\<close>) keeps its kind. \<open>ErrExternal\<close>
  stands for a failure reported by the key manager, the hash or the encoder.
  \<open>Panic\<close> is not a Go error value: it marks a run-time panic (a nil dereference or
  an index out of range), after which the call never returns.
\<close>

datatype error =
    ErrAccountNotFound
  | ErrAccountExists
  | ErrDatabaseNotFound
  | ErrDatabaseExists
  | ErrDatabaseUserExists
  | ErrInvalidSender
  | ErrInvalidAccountNonce
  | ErrInvalidPermission
  | ErrInvalidGasPrice
  | ErrInsufficientAdvancePayment
  | ErrNoSuchMiner
  | ErrMinerUserNotMatch
  | ErrGasPriceMismatch
  | ErrAccountPermissionDeny
  | ErrWrongTokenType
  | ErrUnknownTransactionType
  | ErrOverflow
  | ErrUnderflow
  | ErrExternal
  | Panic

section \<open>Safe arithmetic\<close>

text \<open>
  Modelled from the spec: \<^verbatim>\<open>safeAdd\<close> and \<^verbatim>\<open>safeSub\<close> live outside the files at hand.
  The spec: \<open>safe_add(dst, src)\<close> fails with Overflow when \<open>dst + src\<close> exceeds the
  maximum, \<open>safe_sub(dst, src)\<close> fails with Underflow when \<open>src > dst\<close>; on failure
  \<open>dst\<close> is unchanged. The functions return the new value of \<open>dst\<close>.
\<close>

definition safeAdd :: "u64 \<Rightarrow> u64 \<Rightarrow> error + u64" where
  "safeAdd x y = (if unat x + unat y < 2 ^ 64 then Inr (x + y) else Inl ErrOverflow)"

definition safeSub :: "u64 \<Rightarrow> u64 \<Rightarrow> error + u64" where
  "safeSub x y = (if unat y \<le> unat x then Inr (x - y) else Inl ErrUnderflow)"

section \<open>Entities\<close>

record account =
  Address :: address
  NextNonce :: account_nonce
  TokenBalance :: "token_type \<Rightarrow> u64"

record sqlchain_user =
  UserAddress :: address
  Permission :: user_permission
  Status :: user_status
  Deposit :: u64
  AdvancePayment :: u64

record user_arrears =
  ArrearsUser :: address
  ArrearsAmount :: u64

record miner_info =
  MinerAddress :: address
  MinerNodeID :: node_id
  MinerDeposit :: u64
  EncryptionKey :: string
  PendingIncome :: u64
  ReceivedIncome :: u64
  UserArrears :: "user_arrears list"

record sqlchain_profile =
  ID :: database_id
  ChainAddress :: address
  Period :: u64
  GasPrice :: u64
  ChainTokenType :: token_type
  Owner :: address
  Users :: "sqlchain_user list"
  Miners :: "miner_info list"
  EncodedGenesis :: "8 word list"

record provider_profile =
  Provider :: address
  Space :: u64
  Memory :: u64
  LoadAvgPerCPU :: float64
  TargetUser :: address
  ProviderDeposit :: u64
  ProviderGasPrice :: u64
  ProviderNodeID :: node_id

text \<open>The account \<^verbatim>\<open>&types.Account{Address: a}\<close>: every other field is zero.\<close>

definition emptyAccount :: "address \<Rightarrow> account" where
  "emptyAccount a = \<lparr>Address = a, NextNonce = 0, TokenBalance = (\<lambda>_. 0)\<rparr>"

section \<open>The two-layer state\<close>

text \<open>
  \<open>dirty\<close> is a \<^verbatim>\<open>metaIndex\<close> whose maps hold pointers: a key bound to \<open>None\<close> is the
  nil pointer that marks a deletion. \<open>readonly\<close> is written by \<^verbatim>\<open>commit\<close> only, which
  deletes a key instead of storing nil, so its maps hold objects. Objects are values:
  two keys never share one object.
\<close>

record metaIndex =
  accounts :: "address \<rightharpoonup> account option"
  databases :: "database_id \<rightharpoonup> sqlchain_profile option"
  provider :: "address \<rightharpoonup> provider_profile option"

record baseIndex =
  roAccounts :: "address \<rightharpoonup> account"
  roDatabases :: "database_id \<rightharpoonup> sqlchain_profile"
  roProvider :: "address \<rightharpoonup> provider_profile"

record metaState =
  dirty :: metaIndex
  readonly :: baseIndex

definition newMetaIndex :: metaIndex where
  "newMetaIndex = \<lparr>accounts = Map.empty, databases = Map.empty, provider = Map.empty\<rparr>"

definition newBaseIndex :: baseIndex where
  "newBaseIndex = \<lparr>roAccounts = Map.empty, roDatabases = Map.empty, roProvider = Map.empty\<rparr>"

definition newMetaState :: metaState where
  "newMetaState = \<lparr>dirty = newMetaIndex, readonly = newBaseIndex\<rparr>"

text \<open>
  The loaders return the pair \<open>(o, loaded)\<close> of the source as an \<open>option\<close>: \<open>Some o\<close>
  when \<open>loaded\<close>, \<open>None\<close> otherwise.
\<close>

definition loadAccountObject :: "metaState \<Rightarrow> address \<Rightarrow> account option" where
  "loadAccountObject s k =
     (case accounts (dirty s) k of
        Some None \<Rightarrow> None
      | Some (Some a) \<Rightarrow> Some a
      | None \<Rightarrow> roAccounts (readonly s) k)"

text \<open>
  \<^verbatim>\<open>loadOrStoreAccountObject\<close>: a nil marker in \<open>dirty\<close> does not stop the lookup in
  \<open>readonly\<close>; the object is stored only when neither layer holds one.
\<close>

definition loadOrStoreAccountObject ::
  "metaState \<Rightarrow> address \<Rightarrow> account \<Rightarrow> account option \<times> metaState" where
  "loadOrStoreAccountObject s k v =
     (case accounts (dirty s) k of
        Some (Some a) \<Rightarrow> (Some a, s)
      | _ \<Rightarrow>
          (case roAccounts (readonly s) k of
             Some a \<Rightarrow> (Some a, s)
           | None \<Rightarrow> (None, s\<lparr>dirty := (dirty s)\<lparr>accounts := (accounts (dirty s))(k \<mapsto> Some v)\<rparr>\<rparr>)))"

definition loadAccountStableBalance :: "metaState \<Rightarrow> address \<Rightarrow> u64 option" where
  "loadAccountStableBalance s addr =
     (case accounts (dirty s) addr of
        Some (Some a) \<Rightarrow> Some (TokenBalance a Particle)
      | _ \<Rightarrow> map_option (\<lambda>a. TokenBalance a Particle) (roAccounts (readonly s) addr))"


definition loadSQLChainObject :: "metaState \<Rightarrow> database_id \<Rightarrow> sqlchain_profile option" where
  "loadSQLChainObject s k =
     (case databases (dirty s) k of
        Some None \<Rightarrow> None
      | Some (Some p) \<Rightarrow> Some p
      | None \<Rightarrow> roDatabases (readonly s) k)"

definition loadOrStoreSQLChainObject ::
  "metaState \<Rightarrow> database_id \<Rightarrow> sqlchain_profile \<Rightarrow> sqlchain_profile option \<times> metaState" where
  "loadOrStoreSQLChainObject s k v =
     (case databases (dirty s) k of
        Some (Some p) \<Rightarrow> (Some p, s)
      | _ \<Rightarrow>
          (case roDatabases (readonly s) k of
             Some p \<Rightarrow> (Some p, s)
           | None \<Rightarrow> (None, s\<lparr>dirty := (dirty s)\<lparr>databases := (databases (dirty s))(k \<mapsto> Some v)\<rparr>\<rparr>)))"

definition loadProviderObject :: "metaState \<Rightarrow> address \<Rightarrow> provider_profile option" where
  "loadProviderObject s k =
     (case provider (dirty s) k of
        Some None \<Rightarrow> None
      | Some (Some p) \<Rightarrow> Some p
      | None \<Rightarrow> roProvider (readonly s) k)"

definition loadOrStoreProviderObject ::
  "metaState \<Rightarrow> address \<Rightarrow> provider_profile \<Rightarrow> provider_profile option \<times> metaState" where
  "loadOrStoreProviderObject s k v =
     (case provider (dirty s) k of
        Some (Some p) \<Rightarrow> (Some p, s)
      | _ \<Rightarrow>
          (case roProvider (readonly s) k of
             Some p \<Rightarrow> (Some p, s)
           | None \<Rightarrow> (None, s\<lparr>dirty := (dirty s)\<lparr>provider := (provider (dirty s))(k \<mapsto> Some v)\<rparr>\<rparr>)))"

definition deleteAccountObject :: "metaState \<Rightarrow> address \<Rightarrow> metaState" where
  "deleteAccountObject s k = s\<lparr>dirty := (dirty s)\<lparr>accounts := (accounts (dirty s))(k \<mapsto> None)\<rparr>\<rparr>"

definition deleteSQLChainObject :: "metaState \<Rightarrow> database_id \<Rightarrow> metaState" where
  "deleteSQLChainObject s k = s\<lparr>dirty := (dirty s)\<lparr>databases := (databases (dirty s))(k \<mapsto> None)\<rparr>\<rparr>"

definition deleteProviderObject :: "metaState \<Rightarrow> address \<Rightarrow> metaState" where
  "deleteProviderObject s k = s\<lparr>dirty := (dirty s)\<lparr>provider := (provider (dirty s))(k \<mapsto> None)\<rparr>\<rparr>"

subsection \<open>commit and clean\<close>

text \<open>
  One step of a \<^verbatim>\<open>for k, v := range\<close> loop of \<^verbatim>\<open>commit\<close>: a non-nil \<open>v\<close> is stored in
  the readonly map, a nil \<open>v\<close> deletes the key.
\<close>

definition commitEntry :: "'k \<times> 'v option \<Rightarrow> ('k \<rightharpoonup> 'v) \<Rightarrow> ('k \<rightharpoonup> 'v)" where
  "commitEntry kv ro = (case snd kv of Some v \<Rightarrow> ro(fst kv \<mapsto> v) | None \<Rightarrow> ro(fst kv := None))"

text \<open>
  Go visits the entries of a map in an unspecified order. \<^verbatim>\<open>commit\<close> takes the three
  orders of visit as lists of entries: \<open>as\<close> for the accounts, \<open>ds\<close> for the
  databases, \<open>ps\<close> for the providers.
\<close>

definition commit ::
  "(address \<times> account option) list \<Rightarrow> (database_id \<times> sqlchain_profile option) list \<Rightarrow>
   (address \<times> provider_profile option) list \<Rightarrow> metaState \<Rightarrow> metaState" where
  "commit as ds ps s =
     \<lparr>dirty = newMetaIndex,
      readonly =
        \<lparr>roAccounts = fold commitEntry as (roAccounts (readonly s)),
         roDatabases = fold commitEntry ds (roDatabases (readonly s)),
         roProvider = fold commitEntry ps (roProvider (readonly s))\<rparr>\<rparr>"

definition clean :: "metaState \<Rightarrow> metaState" where
  "clean s = s\<lparr>dirty := newMetaIndex\<rparr>"

text \<open>
  The fold of the spec, \<open>readonly \<oplus> dirty\<close>, key by key: a dirty object replaces the
  readonly entry, a dirty nil marker deletes it, a key absent from dirty keeps it.
\<close>

definition overlay :: "('k \<rightharpoonup> 'v option) \<Rightarrow> ('k \<rightharpoonup> 'v) \<Rightarrow> ('k \<rightharpoonup> 'v)" where
  "overlay d ro = (\<lambda>k. case d k of None \<Rightarrow> ro k | Some None \<Rightarrow> None | Some (Some v) \<Rightarrow> Some v)"

section \<open>The environment\<close>

text \<open>
  What the block producer takes from other packages: the hash of a public key
  (\<^verbatim>\<open>crypto.PubKeyHash\<close>, \<open>None\<close> when it reports an error), the conversions between
  addresses and database identifiers, the configuration knobs of \<^verbatim>\<open>conf.GConf\<close>, the
  key manager, the clock, block signing and the encoder. \<open>arrearsIncome a b i\<close> is the
  floating-point expression \<^verbatim>\<open>uint64(float64(i) * (1 - float64(a)/float64(b)))\<close> of
  \<^verbatim>\<open>updateBilling\<close>, which is left to the environment.
\<close>

record header =
  Version :: "32 word"
  Producer :: node_id
  GenesisHash :: "256 word"
  ParentHash :: "256 word"
  Timestamp :: nat

record env =
  pubKeyHash :: "pubkey option \<Rightarrow> address option"
  databaseID :: "address \<Rightarrow> database_id"
  fromAccountAndNonce :: "address \<Rightarrow> account_nonce \<Rightarrow> database_id"
  accountAddress :: "database_id \<Rightarrow> address option"
  QPS :: u64
  UpdatePeriod :: u64
  MinProviderDeposit :: u64
  NumberOfUserPermission :: user_permission
  localPrivateKey :: "nat option"
  localNodeID :: "node_id option"
  nowUTC :: nat
  packAndSignBlock :: "header \<Rightarrow> nat \<Rightarrow> (header \<times> 8 word list) option"
  encodeMsgPack :: "header \<times> 8 word list \<Rightarrow> 8 word list option"
  arrearsIncome :: "u64 \<Rightarrow> u64 \<Rightarrow> u64 \<Rightarrow> u64"

definition sqlchainPeriod :: u64 where
  "sqlchainPeriod = 60 * 24 * 30"

definition minDeposit :: "env \<Rightarrow> u64 \<Rightarrow> u64 \<Rightarrow> u64" where
  "minDeposit e gasPrice minerNumber = gasPrice * QPS e * UpdatePeriod e * minerNumber"

section \<open>Account operations\<close>

text \<open>
  The lookup \<^verbatim>\<open>if o, ok = s.dirty.accounts[k]; !ok { if o, ok = s.readonly.accounts[k]; !ok {...} }\<close>
  that the account operations share: \<open>None\<close> when neither map has the key, \<open>Some None\<close>
  when dirty holds the nil marker, else the object.
\<close>

definition lookupAccount :: "metaState \<Rightarrow> address \<Rightarrow> account option option" where
  "lookupAccount s k =
     (case accounts (dirty s) k of
        Some a \<Rightarrow> Some a
      | None \<Rightarrow> map_option Some (roAccounts (readonly s) k))"

text \<open>
  \<^verbatim>\<open>s.dirty.accounts[k] = a\<close>, and also a write through a pointer to an object of
  dirty.
\<close>

definition setDirtyAccount :: "metaState \<Rightarrow> address \<Rightarrow> account \<Rightarrow> metaState" where
  "setDirtyAccount s k a = s\<lparr>dirty := (dirty s)\<lparr>accounts := (accounts (dirty s))(k \<mapsto> Some a)\<rparr>\<rparr>"

definition setDirtyDatabase :: "metaState \<Rightarrow> database_id \<Rightarrow> sqlchain_profile \<Rightarrow> metaState" where
  "setDirtyDatabase s k p = s\<lparr>dirty := (dirty s)\<lparr>databases := (databases (dirty s))(k \<mapsto> Some p)\<rparr>\<rparr>"

definition setBalance :: "account \<Rightarrow> token_type \<Rightarrow> u64 \<Rightarrow> account" where
  "setBalance a tt v = a\<lparr>TokenBalance := (TokenBalance a)(tt := v)\<rparr>"

text \<open>
  \<^verbatim>\<open>increaseAccountToken\<close> and \<^verbatim>\<open>decreaseAccountToken\<close>: a readonly object is copied into
  dirty before the safe operation runs, so the copy stays in dirty when the operation
  fails.
\<close>

definition increaseAccountToken ::
  "metaState \<Rightarrow> address \<Rightarrow> u64 \<Rightarrow> token_type \<Rightarrow> error option \<times> metaState" where
  "increaseAccountToken s k amount tokenType =
     (case lookupAccount s k of
        None \<Rightarrow> (Some ErrAccountNotFound, s)
      | Some None \<Rightarrow> (Some Panic, s)
      | Some (Some dst) \<Rightarrow>
          (case safeAdd (TokenBalance dst tokenType) amount of
             Inl e \<Rightarrow> (Some e, setDirtyAccount s k dst)
           | Inr v \<Rightarrow> (None, setDirtyAccount s k (setBalance dst tokenType v))))"

definition decreaseAccountToken ::
  "metaState \<Rightarrow> address \<Rightarrow> u64 \<Rightarrow> token_type \<Rightarrow> error option \<times> metaState" where
  "decreaseAccountToken s k amount tokenType =
     (case lookupAccount s k of
        None \<Rightarrow> (Some ErrAccountNotFound, s)
      | Some None \<Rightarrow> (Some Panic, s)
      | Some (Some dst) \<Rightarrow>
          (case safeSub (TokenBalance dst tokenType) amount of
             Inl e \<Rightarrow> (Some e, setDirtyAccount s k dst)
           | Inr v \<Rightarrow> (None, setDirtyAccount s k (setBalance dst tokenType v))))"

definition increaseAccountStableBalance :: "metaState \<Rightarrow> address \<Rightarrow> u64 \<Rightarrow> error option \<times> metaState" where
  "increaseAccountStableBalance s k amount = increaseAccountToken s k amount Particle"

definition decreaseAccountStableBalance :: "metaState \<Rightarrow> address \<Rightarrow> u64 \<Rightarrow> error option \<times> metaState" where
  "decreaseAccountStableBalance s k amount = decreaseAccountToken s k amount Particle"

definition increaseAccountCovenantBalance :: "metaState \<Rightarrow> address \<Rightarrow> u64 \<Rightarrow> error option \<times> metaState" where
  "increaseAccountCovenantBalance s k amount = increaseAccountToken s k amount Wave"

definition nextNonce :: "metaState \<Rightarrow> address \<Rightarrow> error + account_nonce" where
  "nextNonce s addr =
     (case lookupAccount s addr of
        None \<Rightarrow> Inl ErrAccountNotFound
      | Some None \<Rightarrow> Inl Panic
      | Some (Some a) \<Rightarrow> Inr (NextNonce a))"

definition increaseNonce :: "metaState \<Rightarrow> address \<Rightarrow> error option \<times> metaState" where
  "increaseNonce s addr =
     (case lookupAccount s addr of
        None \<Rightarrow> (Some ErrAccountNotFound, s)
      | Some None \<Rightarrow> (Some Panic, s)
      | Some (Some dst) \<Rightarrow> (None, setDirtyAccount s addr (dst\<lparr>NextNonce := NextNonce dst + 1\<rparr>)))"

section \<open>Transactions\<close>

record transfer =
  Sender :: address
  Receiver :: address
  Amount :: u64
  TransferTokenType :: token_type
  TransferSignee :: "pubkey option"

record billing =
  Receivers :: "address option list"
  Fees :: "u64 list"
  Rewards :: "u64 list"

record base_account =
  BaseAddress :: address
  BaseAccount :: account

record provide_service =
  ProvideSignee :: "pubkey option"
  ProvideSpace :: u64
  ProvideMemory :: u64
  ProvideLoadAvgPerCPU :: float64
  ProvideTargetUser :: address
  ProvideGasPrice :: u64
  ProvideNodeID :: node_id

record create_database =
  CreateOwner :: address
  CreateSignee :: "pubkey option"
  CreateNonce :: account_nonce
  TargetMiners :: "address list"
  CreateGasPrice :: u64
  CreateAdvancePayment :: u64
  CreateTokenType :: token_type

record update_permission =
  PermSignee :: "pubkey option"
  PermTargetSQLChain :: address
  PermTargetUser :: address
  PermPermission :: user_permission

record miner_key =
  KeyMiner :: address
  KeyEncryptionKey :: string

record issue_keys =
  KeysTargetSQLChain :: address
  MinerKeys :: "miner_key list"

record miner_income =
  IncomeMiner :: address
  Income :: u64

record user_cost =
  CostUser :: address
  Cost :: u64
  CostMiners :: "miner_income option list"

record update_billing =
  BillingReceiver :: address
  BillingUsers :: "user_cost option list"

text \<open>
  A transaction is its dynamic type with its fields, together with what the three
  methods \<^verbatim>\<open>GetAccountAddress\<close>, \<^verbatim>\<open>GetAccountNonce\<close> and \<^verbatim>\<open>GetTransactionType\<close> of the
  interface return for it (their implementations are outside the files at hand, so
  nothing is assumed about them). \<open>OtherTx\<close> is any other implementation of the
  interface.
\<close>

record tx_methods =
  GetAccountAddress :: address
  GetAccountNonce :: account_nonce
  GetTransactionType :: transaction_type

datatype tx_body =
    TransferTx transfer
  | BillingTx billing
  | BaseAccountTx base_account
  | ProvideServiceTx provide_service
  | CreateDatabaseTx create_database
  | UpdatePermissionTx update_permission
  | IssueKeysTx issue_keys
  | UpdateBillingTx update_billing
  | OtherTx

datatype transaction =
    Tx tx_methods tx_body
  | TransactionWrapper tx_methods transaction

fun methods :: "transaction \<Rightarrow> tx_methods" where
  "methods (Tx m b) = m"
| "methods (TransactionWrapper m t) = m"

section \<open>Handlers\<close>

subsection \<open>Transfer between accounts\<close>

text \<open>
  \<^verbatim>\<open>transferAccountToken\<close>. The source sets \<open>err\<close> to \<open>ErrInvalidSender\<close> when the
  signee is nil and goes on; the next statement, \<^verbatim>\<open>realSender, err := crypto.PubKeyHash(...)\<close>,
  overwrites it. When the hash differs from the sender, \<open>err\<close> is set again and the
  function goes on: \<open>err\<close> is what the early return of the no-op case gives back, and
  \<^verbatim>\<open>err = safeSub(...)\<close> overwrites it.
\<close>

definition transferAccountToken :: "env \<Rightarrow> metaState \<Rightarrow> transfer \<Rightarrow> error option \<times> metaState" where
  "transferAccountToken e s t =
     (case pubKeyHash e (TransferSignee t) of
        None \<Rightarrow> (Some ErrExternal, s)
      | Some realSender \<Rightarrow>
          (let err = (if realSender \<noteq> Sender t then Some ErrInvalidSender else None) in
           if Sender t = Receiver t \<or> Amount t = 0 then (err, s)
           else
             (let s1 = snd (loadOrStoreAccountObject s (Receiver t) (emptyAccount (Receiver t))) in
              case lookupAccount s1 (Sender t) of
                None \<Rightarrow> (Some ErrAccountNotFound, s1)
              | Some so \<Rightarrow>
                  (case lookupAccount s1 (Receiver t) of
                     None \<Rightarrow> (Some ErrAccountNotFound, s1)
                   | Some ro \<Rightarrow>
                       (case so of
                          None \<Rightarrow> (Some Panic, s1)
                        | Some so' \<Rightarrow>
                            (case ro of
                               None \<Rightarrow> (Some Panic, s1)
                             | Some ro' \<Rightarrow>
                                 (case safeSub (TokenBalance so' (TransferTokenType t)) (Amount t) of
                                    Inl x \<Rightarrow> (Some x, s1)
                                  | Inr sb \<Rightarrow>
                                      (case safeAdd (TokenBalance ro' (TransferTokenType t)) (Amount t) of
                                         Inl x \<Rightarrow> (Some x, s1)
                                       | Inr rb \<Rightarrow>
                                           (None,
                                            setDirtyAccount
                                              (setDirtyAccount s1 (Sender t)
                                                 (setBalance so' (TransferTokenType t) sb))
                                              (Receiver t)
                                              (setBalance ro' (TransferTokenType t) rb))))))))))"

subsection \<open>Base accounts and block rewards\<close>

text \<open>
  \<^verbatim>\<open>storeBaseAccount\<close> writes the merged balances through the pointer that
  \<^verbatim>\<open>loadOrStoreAccountObject\<close> returned: into the dirty object when dirty holds one,
  else into the readonly object itself.
\<close>

definition updateAccountInPlace :: "metaState \<Rightarrow> address \<Rightarrow> account \<Rightarrow> metaState" where
  "updateAccountInPlace s k a =
     (case accounts (dirty s) k of
        Some (Some _) \<Rightarrow> setDirtyAccount s k a
      | _ \<Rightarrow> s\<lparr>readonly := (readonly s)\<lparr>roAccounts := (roAccounts (readonly s))(k \<mapsto> a)\<rparr>\<rparr>)"

definition storeBaseAccount :: "metaState \<Rightarrow> address \<Rightarrow> account \<Rightarrow> error option \<times> metaState" where
  "storeBaseAccount s k v =
     (case loadOrStoreAccountObject s k v of
        (None, s1) \<Rightarrow> (None, s1)
      | (Some ao, s1) \<Rightarrow>
          if NextNonce ao \<noteq> 0 then (Some ErrAccountExists, s1)
          else
            (case safeAdd (TokenBalance ao Wave) (TokenBalance v Wave) of
               Inl x \<Rightarrow> (Some x, s1)
             | Inr cb \<Rightarrow>
                 (case safeAdd (TokenBalance ao Particle) (TokenBalance v Particle) of
                    Inl x \<Rightarrow> (Some x, s1)
                  | Inr sb \<Rightarrow>
                      (None, updateAccountInPlace s1 k (setBalance (setBalance ao Wave cb) Particle sb)))))"

text \<open>
  \<^verbatim>\<open>applyBilling\<close>: the loop over \<open>tx.Receivers\<close>, with the index \<open>i\<close> into \<open>Fees\<close> and
  \<open>Rewards\<close>; a nil receiver and an index out of range panic.
\<close>

fun applyBillingFrom ::
  "metaState \<Rightarrow> u64 list \<Rightarrow> u64 list \<Rightarrow> nat \<Rightarrow> address option list \<Rightarrow> error option \<times> metaState" where
  "applyBillingFrom s fees rewards i [] = (None, s)"
| "applyBillingFrom s fees rewards i (v # vs) =
     (case v of
        None \<Rightarrow> (Some Panic, s)
      | Some a \<Rightarrow>
          (let s1 = snd (loadOrStoreAccountObject s a (emptyAccount a)) in
           if length fees \<le> i then (Some Panic, s1)
           else
             (case increaseAccountCovenantBalance s1 a (fees ! i) of
                (Some x, s2) \<Rightarrow> (Some x, s2)
              | (None, s2) \<Rightarrow>
                  if length rewards \<le> i then (Some Panic, s2)
                  else
                    (case increaseAccountStableBalance s2 a (rewards ! i) of
                       (Some x, s3) \<Rightarrow> (Some x, s3)
                     | (None, s3) \<Rightarrow> applyBillingFrom s3 fees rewards (Suc i) vs))))"

definition applyBilling :: "metaState \<Rightarrow> billing \<Rightarrow> error option \<times> metaState" where
  "applyBilling s tx = applyBillingFrom s (Fees tx) (Rewards tx) 0 (Receivers tx)"

subsection \<open>Providers\<close>

definition updateProviderList :: "env \<Rightarrow> metaState \<Rightarrow> provide_service \<Rightarrow> error option \<times> metaState" where
  "updateProviderList e s tx =
     (case pubKeyHash e (ProvideSignee tx) of
        None \<Rightarrow> (Some ErrExternal, s)
      | Some sender \<Rightarrow>
          (case decreaseAccountStableBalance s sender (MinProviderDeposit e) of
             (Some x, s1) \<Rightarrow> (Some x, s1)
           | (None, s1) \<Rightarrow>
               (None,
                snd (loadOrStoreProviderObject s1 sender
                  \<lparr>Provider = sender, Space = ProvideSpace tx, Memory = ProvideMemory tx,
                   LoadAvgPerCPU = ProvideLoadAvgPerCPU tx, TargetUser = ProvideTargetUser tx,
                   ProviderDeposit = MinProviderDeposit e, ProviderGasPrice = ProvideGasPrice tx,
                   ProviderNodeID = ProvideNodeID tx\<rparr>))))"

subsection \<open>Creating a database\<close>

text \<open>
  The loop of \<^verbatim>\<open>matchProvidersWithUser\<close> over \<open>tx.ResourceMeta.TargetMiners\<close>: it breaks
  at the first miner that has no provider profile, serves another user or asks a
  higher gas price, and otherwise builds the miner list in the order of the targets.
\<close>

definition newMinerInfo :: "provider_profile \<Rightarrow> miner_info" where
  "newMinerInfo po =
     \<lparr>MinerAddress = Provider po, MinerNodeID = ProviderNodeID po, MinerDeposit = ProviderDeposit po,
      EncryptionKey = [], PendingIncome = 0, ReceivedIncome = 0, UserArrears = []\<rparr>"

fun resolveMiners :: "metaState \<Rightarrow> address \<Rightarrow> u64 \<Rightarrow> address list \<Rightarrow> error + miner_info list" where
  "resolveMiners s sender gasPrice [] = Inr []"
| "resolveMiners s sender gasPrice (m # ms) =
     (case loadProviderObject s m of
        None \<Rightarrow> Inl ErrNoSuchMiner
      | Some po \<Rightarrow>
          if TargetUser po \<noteq> sender then Inl ErrMinerUserNotMatch
          else if ProviderGasPrice po > gasPrice then Inl ErrGasPriceMismatch
          else
            (case resolveMiners s sender gasPrice ms of
               Inl x \<Rightarrow> Inl x
             | Inr miners \<Rightarrow> Inr (newMinerInfo po # miners)))"

definition generateGenesisBlock :: "env \<Rightarrow> database_id \<Rightarrow> error + header \<times> 8 word list" where
  "generateGenesisBlock e dbID =
     (case localPrivateKey e of
        None \<Rightarrow> Inl ErrExternal
      | Some privKey \<Rightarrow>
          (case localNodeID e of
             None \<Rightarrow> Inl ErrExternal
           | Some nodeID \<Rightarrow>
               (case packAndSignBlock e
                       \<lparr>Version = 0x01000000, Producer = nodeID, GenesisHash = 0, ParentHash = 0,
                        Timestamp = nowUTC e\<rparr> privKey of
                  None \<Rightarrow> Inl ErrExternal
                | Some b \<Rightarrow> Inr b)))"

definition matchProvidersWithUser ::
  "env \<Rightarrow> metaState \<Rightarrow> create_database \<Rightarrow> error option \<times> metaState" where
  "matchProvidersWithUser e s tx =
     (case pubKeyHash e (CreateSignee tx) of
        None \<Rightarrow> (Some ErrExternal, s)
      | Some sender \<Rightarrow>
          if sender \<noteq> CreateOwner tx then (Some ErrInvalidSender, s)
          else if CreateGasPrice tx \<le> 0 then (Some ErrInvalidGasPrice, s)
          else
            (let minAdvancePayment = minDeposit e (CreateGasPrice tx) (of_nat (length (TargetMiners tx))) in
             if CreateAdvancePayment tx < minAdvancePayment then (Some ErrInsufficientAdvancePayment, s)
             else
               (case resolveMiners s sender (CreateGasPrice tx) (TargetMiners tx) of
                  Inl x \<Rightarrow> (Some x, s)
                | Inr miners \<Rightarrow>
                    (let dbID = fromAccountAndNonce e (CreateOwner tx) (CreateNonce tx) in
                     case accountAddress e dbID of
                       None \<Rightarrow> (Some ErrExternal, s)
                     | Some dbAddr \<Rightarrow>
                         (case safeAdd minAdvancePayment (CreateAdvancePayment tx) of
                            Inl x \<Rightarrow> (Some x, s)
                          | Inr all \<Rightarrow>
                              (case decreaseAccountToken s sender all (CreateTokenType tx) of
                                 (Some x, s1) \<Rightarrow> (Some x, s1)
                               | (None, s1) \<Rightarrow>
                                   (case generateGenesisBlock e dbID of
                                      Inl x \<Rightarrow> (Some x, s1)
                                    | Inr gb \<Rightarrow>
                                        (case encodeMsgPack e gb of
                                           None \<Rightarrow> (Some ErrExternal, s1)
                                         | Some enc \<Rightarrow>
                                             (case loadSQLChainObject s1 dbID of
                                                Some _ \<Rightarrow> (Some ErrDatabaseExists, s1)
                                              | None \<Rightarrow>
                                                  (let sp =
                                                     \<lparr>ID = dbID, ChainAddress = dbAddr, Period = sqlchainPeriod,
                                                      GasPrice = CreateGasPrice tx, ChainTokenType = Particle,
                                                      Owner = sender,
                                                      Users =
                                                        [\<lparr>UserAddress = sender, Permission = Admin,
                                                          Status = Normal, Deposit = minAdvancePayment,
                                                          AdvancePayment = CreateAdvancePayment tx\<rparr>],
                                                      Miners = miners, EncodedGenesis = enc\<rparr>;
                                                     s2 = snd (loadOrStoreAccountObject s1 dbAddr (emptyAccount dbAddr));
                                                     s3 = snd (loadOrStoreSQLChainObject s2 dbID sp)
                                                   in (None, fold (\<lambda>miner st. deleteProviderObject st miner)
                                                               (TargetMiners tx) s3)))))))))))"

subsection \<open>Permissions and keys\<close>

text \<open>
  The loop of \<^verbatim>\<open>updatePermission\<close> over the users: \<open>isAdmin\<close> and the index of the last
  user whose address is the target (\<open>None\<close> for the \<open>-1\<close> of the source).
\<close>

fun scanUsers ::
  "address \<Rightarrow> address \<Rightarrow> nat \<Rightarrow> bool \<times> nat option \<Rightarrow> sqlchain_user list \<Rightarrow> bool \<times> nat option" where
  "scanUsers sender target i acc [] = acc"
| "scanUsers sender target i acc (u # us) =
     scanUsers sender target (Suc i)
       (fst acc \<or> (sender = UserAddress u \<and> Permission u = Admin),
        if target = UserAddress u then Some i else snd acc) us"

definition updatePermission :: "env \<Rightarrow> metaState \<Rightarrow> update_permission \<Rightarrow> error option \<times> metaState" where
  "updatePermission e s tx =
     (case pubKeyHash e (PermSignee tx) of
        None \<Rightarrow> (Some ErrExternal, s)
      | Some sender \<Rightarrow>
          if sender = PermTargetUser tx then (Some ErrInvalidSender, s)
          else
            (case loadSQLChainObject s (databaseID e (PermTargetSQLChain tx)) of
               None \<Rightarrow> (Some ErrDatabaseNotFound, s)
             | Some so \<Rightarrow>
                 if PermPermission tx \<ge> NumberOfUserPermission e then (Some ErrInvalidPermission, s)
                 else
                   (case scanUsers sender (PermTargetUser tx) 0 (False, None) (Users so) of
                      (isAdmin, targetUserIndex) \<Rightarrow>
                        if \<not> isAdmin then (Some ErrAccountPermissionDeny, s)
                        else
                          (None,
                           setDirtyDatabase s (databaseID e (PermTargetSQLChain tx))
                             (so\<lparr>Users :=
                                (case targetUserIndex of
                                   None \<Rightarrow>
                                     Users so @
                                       [\<lparr>UserAddress = PermTargetUser tx, Permission = PermPermission tx,
                                         Status = Normal, Deposit = 0, AdvancePayment = 0\<rparr>]
                                 | Some i \<Rightarrow>
                                     (Users so)[i := (Users so ! i)\<lparr>Permission := PermPermission tx\<rparr>])\<rparr>)))))"

text \<open>
  \<^verbatim>\<open>updateKeys\<close> sets the encryption keys in the copy that \<^verbatim>\<open>loadSQLChainObject\<close>
  returned (\<open>issuedKeys\<close>) and returns without storing the copy.
\<close>

definition issuedKeys :: "sqlchain_profile \<Rightarrow> issue_keys \<Rightarrow> sqlchain_profile" where
  "issuedKeys so tx =
     (let keyMap = fold (\<lambda>mk km. km(KeyMiner mk \<mapsto> KeyEncryptionKey mk)) (MinerKeys tx) Map.empty in
      so\<lparr>Miners :=
        map (\<lambda>miner. case keyMap (MinerAddress miner) of
                        Some key \<Rightarrow> miner\<lparr>EncryptionKey := key\<rparr>
                      | None \<Rightarrow> miner) (Miners so)\<rparr>)"

definition updateKeys :: "env \<Rightarrow> metaState \<Rightarrow> address \<Rightarrow> issue_keys \<Rightarrow> error option \<times> metaState" where
  "updateKeys e s sender tx =
     (case loadSQLChainObject s (databaseID e (KeysTargetSQLChain tx)) of
        None \<Rightarrow> (Some ErrDatabaseNotFound, s)
      | Some so \<Rightarrow>
          if \<not> list_ex (\<lambda>user. sender = UserAddress user \<and> Permission user = Admin) (Users so)
          then (Some ErrAccountPermissionDeny, s)
          else (let so' = issuedKeys so tx in (None, s)))"

subsection \<open>Billing of a chain\<close>

definition settleMiner :: "miner_info \<Rightarrow> miner_info" where
  "settleMiner miner = miner\<lparr>ReceivedIncome := ReceivedIncome miner + PendingIncome miner, PendingIncome := 0\<rparr>"

text \<open>The first loop of \<^verbatim>\<open>updateBilling\<close>: \<open>isMiner\<close> and the settled miners.\<close>

definition settleMiners :: "address \<Rightarrow> miner_info list \<Rightarrow> bool \<times> miner_info list" where
  "settleMiners minerAddr miners =
     fold (\<lambda>miner (isMiner, done). (isMiner \<or> MinerAddress miner = minerAddr, done @ [settleMiner miner]))
       miners (False, [])"

text \<open>
  \<open>costMap\<close> and \<open>userMap\<close>: reading a key that a Go map does not hold gives 0, so the
  maps are total functions that start at 0. \<open>None\<close> is the panic on a nil entry of
  \<open>tx.Users\<close> or of \<open>userCost.Miners\<close>.
\<close>

fun addIncomes :: "(address \<Rightarrow> u64) \<Rightarrow> miner_income option list \<Rightarrow> (address \<Rightarrow> u64) option" where
  "addIncomes m [] = Some m"
| "addIncomes m (None # rest) = None"
| "addIncomes m (Some mi # rest) = addIncomes (m(IncomeMiner mi := m (IncomeMiner mi) + Income mi)) rest"

fun collectCosts ::
  "(address \<Rightarrow> u64) \<Rightarrow> (address \<Rightarrow> address \<Rightarrow> u64) \<Rightarrow> user_cost option list \<Rightarrow>
   ((address \<Rightarrow> u64) \<times> (address \<Rightarrow> address \<Rightarrow> u64)) option" where
  "collectCosts costMap userMap [] = Some (costMap, userMap)"
| "collectCosts costMap userMap (None # rest) = None"
| "collectCosts costMap userMap (Some uc # rest) =
     (case addIncomes (userMap (CostUser uc)) (CostMiners uc) of
        None \<Rightarrow> None
      | Some m \<Rightarrow> collectCosts (costMap(CostUser uc := Cost uc)) (userMap(CostUser uc := m)) rest)"

definition billUser ::
  "env \<Rightarrow> u64 \<Rightarrow> (address \<Rightarrow> u64) \<Rightarrow> (address \<Rightarrow> address \<Rightarrow> u64) \<Rightarrow> sqlchain_user \<Rightarrow>
   miner_info list \<Rightarrow> sqlchain_user \<times> miner_info list" where
  "billUser e gasPrice costMap userMap user miners =
     (let bill = costMap (UserAddress user) * gasPrice in
      if AdvancePayment user \<ge> bill then
        (user\<lparr>AdvancePayment := AdvancePayment user - bill\<rparr>,
         map (\<lambda>miner. miner\<lparr>PendingIncome :=
                PendingIncome miner + userMap (UserAddress user) (MinerAddress miner) * gasPrice\<rparr>) miners)
      else
        (user\<lparr>AdvancePayment := 0, Status := Arrears\<rparr>,
         map (\<lambda>miner.
                let income = userMap (UserAddress user) (MinerAddress miner) * gasPrice;
                    minerIncome = arrearsIncome e (AdvancePayment user) bill income
                in miner\<lparr>PendingIncome := PendingIncome miner + minerIncome,
                         UserArrears :=
                           map (\<lambda>a. a\<lparr>ArrearsAmount := ArrearsAmount a + (income - minerIncome)\<rparr>)
                             (UserArrears miner)\<rparr>) miners))"

fun billUsers ::
  "env \<Rightarrow> u64 \<Rightarrow> (address \<Rightarrow> u64) \<Rightarrow> (address \<Rightarrow> address \<Rightarrow> u64) \<Rightarrow> sqlchain_user list \<Rightarrow>
   miner_info list \<Rightarrow> sqlchain_user list \<times> miner_info list" where
  "billUsers e gasPrice costMap userMap [] miners = ([], miners)"
| "billUsers e gasPrice costMap userMap (user # users) miners =
     (case billUser e gasPrice costMap userMap user miners of
        (user', miners') \<Rightarrow>
          (case billUsers e gasPrice costMap userMap users miners' of
             (users', miners'') \<Rightarrow> (user' # users', miners'')))"

text \<open>
  \<^verbatim>\<open>updateBilling\<close>; \<open>minerAddr\<close> is \<^verbatim>\<open>tx.GetAccountAddress()\<close>. The profile is a copy:
  nothing reaches the state before the last statement stores it.
\<close>

definition updateBilling :: "env \<Rightarrow> metaState \<Rightarrow> address \<Rightarrow> update_billing \<Rightarrow> error option \<times> metaState" where
  "updateBilling e s minerAddr tx =
     (case loadSQLChainObject s (databaseID e (BillingReceiver tx)) of
        None \<Rightarrow> (Some ErrDatabaseNotFound, s)
      | Some newProfile \<Rightarrow>
          if GasPrice newProfile = 0 then (None, s)
          else
            (case settleMiners minerAddr (Miners newProfile) of
               (isMiner, miners) \<Rightarrow>
                 if \<not> isMiner then (Some ErrInvalidSender, s)
                 else
                   (case collectCosts (\<lambda>_. 0) (\<lambda>_ _. 0) (BillingUsers tx) of
                      None \<Rightarrow> (Some Panic, s)
                    | Some (costMap, userMap) \<Rightarrow>
                        (case billUsers e (GasPrice newProfile) costMap userMap (Users newProfile) miners of
                           (users', miners') \<Rightarrow>
                             (None,
                              setDirtyDatabase s (databaseID e (BillingReceiver tx))
                                (newProfile\<lparr>Users := users', Miners := miners'\<rparr>))))))"

subsection \<open>Transfer into a chain\<close>

text \<open>
  The body of the loop of \<^verbatim>\<open>transferSQLChainTokenBalance\<close> for the user whose address
  is the sender. The result is the value of \<open>err\<close> at the return and, unless the
  function returns before \<^verbatim>\<open>loadOrStoreSQLChainObject\<close>, the user as changed in the
  copy. \<open>err\<close> is the error left by the sender check.
\<close>

definition creditUser ::
  "env \<Rightarrow> sqlchain_profile \<Rightarrow> transfer \<Rightarrow> error option \<Rightarrow> sqlchain_user \<Rightarrow>
   error option \<times> sqlchain_user option" where
  "creditUser e sqlchain t err user =
     (if ChainTokenType sqlchain \<noteq> TransferTokenType t then (Some ErrWrongTokenType, None)
      else
        (let minDep = minDeposit e (GasPrice sqlchain) (of_nat (length (Miners sqlchain))) in
         if Deposit user < minDep then
           (let diff = minDep - Deposit user in
            if diff \<ge> Amount t then (err, Some (user\<lparr>Deposit := Deposit user + Amount t\<rparr>))
            else (err, Some (user\<lparr>Deposit := minDep + (Amount t - diff)\<rparr>)))
         else
           (case safeAdd (AdvancePayment user) (Amount t) of
              Inl x \<Rightarrow> (Some x, None)
            | Inr v \<Rightarrow> (None, Some (user\<lparr>AdvancePayment := v\<rparr>)))))"

text \<open>
  The loop over \<open>sqlchain.Users\<close>: \<open>None\<close> when no user has the sender's address, else
  the outcome for the first such user and the users of the copy.
\<close>

fun creditUsers ::
  "env \<Rightarrow> sqlchain_profile \<Rightarrow> transfer \<Rightarrow> error option \<Rightarrow> sqlchain_user list \<Rightarrow>
   (error option \<times> sqlchain_user list option) option" where
  "creditUsers e sqlchain t err [] = None"
| "creditUsers e sqlchain t err (user # users) =
     (if UserAddress user = Sender t then
        (case creditUser e sqlchain t err user of
           (r, None) \<Rightarrow> Some (r, None)
         | (r, Some user') \<Rightarrow> Some (r, Some (user' # users)))
      else
        (case creditUsers e sqlchain t err users of
           None \<Rightarrow> None
         | Some (r, None) \<Rightarrow> Some (r, None)
         | Some (r, Some users') \<Rightarrow> Some (r, Some (user # users'))))"

definition transferSQLChainTokenBalance ::
  "env \<Rightarrow> metaState \<Rightarrow> transfer \<Rightarrow> error option \<times> metaState" where
  "transferSQLChainTokenBalance e s t =
     (case pubKeyHash e (TransferSignee t) of
        None \<Rightarrow> (Some ErrExternal, s)
      | Some realSender \<Rightarrow>
          (let err = (if realSender \<noteq> Sender t then Some ErrInvalidSender else None) in
           case loadSQLChainObject s (databaseID e (Sender t)) of
             None \<Rightarrow> (Some ErrDatabaseNotFound, s)
           | Some sqlchain \<Rightarrow>
               (case creditUsers e sqlchain t err (Users sqlchain) of
                  None \<Rightarrow> (err, s)
                | Some (r, None) \<Rightarrow> (r, s)
                | Some (r, Some users') \<Rightarrow>
                    (r, snd (loadOrStoreSQLChainObject s (databaseID e (Sender t))
                               (sqlchain\<lparr>Users := users'\<rparr>))))))"

subsection \<open>Dispatch and the nonce check\<close>

fun applyTransaction :: "env \<Rightarrow> metaState \<Rightarrow> transaction \<Rightarrow> error option \<times> metaState" where
  "applyTransaction e s (Tx m (TransferTx t)) =
     (case transferSQLChainTokenBalance e s t of
        (err, s1) \<Rightarrow> if err = Some ErrDatabaseNotFound then transferAccountToken e s1 t else (err, s1))"
| "applyTransaction e s (Tx m (BillingTx t)) = applyBilling s t"
| "applyTransaction e s (Tx m (BaseAccountTx t)) = storeBaseAccount s (BaseAddress t) (BaseAccount t)"
| "applyTransaction e s (Tx m (ProvideServiceTx t)) = updateProviderList e s t"
| "applyTransaction e s (Tx m (CreateDatabaseTx t)) = matchProvidersWithUser e s t"
| "applyTransaction e s (Tx m (UpdatePermissionTx t)) = updatePermission e s t"
| "applyTransaction e s (Tx m (IssueKeysTx t)) = updateKeys e s (GetAccountAddress m) t"
| "applyTransaction e s (Tx m (UpdateBillingTx t)) = updateBilling e s (GetAccountAddress m) t"
| "applyTransaction e s (Tx m OtherTx) = (Some ErrUnknownTransactionType, s)"
| "applyTransaction e s (TransactionWrapper m t) = applyTransaction e s t"

text \<open>
  \<^verbatim>\<open>apply\<close> (named \<open>applyTx\<close>, since \<open>apply\<close> is a keyword). A panic in \<^verbatim>\<open>nextNonce\<close>
  is not an error value that the BaseAccount case could set aside.
\<close>

definition applyTx :: "env \<Rightarrow> metaState \<Rightarrow> transaction \<Rightarrow> error option \<times> metaState" where
  "applyTx e s t =
     (let addr = GetAccountAddress (methods t);
          nonce = GetAccountNonce (methods t);
          checked =
            (case nextNonce s addr of
               Inr n \<Rightarrow> Inr n
             | Inl err \<Rightarrow>
                 if err = Panic then Inl Panic
                 else if GetTransactionType (methods t) \<noteq> TransactionTypeBaseAccount then Inl err
                 else Inr 0)
      in case checked of
           Inl err \<Rightarrow> (Some err, s)
         | Inr expected \<Rightarrow>
             if expected \<noteq> nonce then (Some ErrInvalidAccountNonce, s)
             else
               (case applyTransaction e s t of
                  (Some err, s1) \<Rightarrow> (Some err, s1)
                | (None, s1) \<Rightarrow> increaseNonce s1 addr))"

subsection \<open>Removing a user of a chain\<close>

text \<open>
  The loop of \<^verbatim>\<open>deleteSQLChainUser\<close>. \<^verbatim>\<open>for i, v := range dst.Users\<close> reads the slice
  once: it visits the indices below the length the slice had when the loop began and
  reads each \<open>v\<close> from the backing array at its turn. The state of the loop is the
  panic raised so far, if any, the backing array \<open>arr\<close> (an entry is a pointer, so
  \<open>None\<close> is nil) and the current length \<open>n\<close> of \<open>dst.Users\<close>. Reading \<open>v.Address\<close> of a
  nil \<open>v\<close> panics, and so does an index outside the current slice; a panic ends the
  loop and leaves the array and the length as the turns before it have made them.
\<close>

definition deleteUserStep ::
  "address \<Rightarrow> nat \<Rightarrow> error option \<times> sqlchain_user option list \<times> nat \<Rightarrow>
   error option \<times> sqlchain_user option list \<times> nat" where
  "deleteUserStep addr i st =
     (case st of
        (Some x, arr, n) \<Rightarrow> (Some x, arr, n)
      | (None, arr, n) \<Rightarrow>
          (case arr ! i of
             None \<Rightarrow> (Some Panic, arr, n)
           | Some v \<Rightarrow>
               if UserAddress v = addr then
                 (if n = 0 \<or> n \<le> i then (Some Panic, arr, n)
                  else (None, (arr[i := arr ! (n - 1)])[n - 1 := None], n - 1))
               else (None, arr, n)))"

text \<open>
  The loop returns the panic, if any, and the slice \<open>dst.Users\<close> as it stands when the
  loop ends: the first \<open>n\<close> entries of the backing array.
\<close>

definition deleteUserLoop :: "address \<Rightarrow> sqlchain_user list \<Rightarrow> error option \<times> sqlchain_user list" where
  "deleteUserLoop addr users =
     (case fold (deleteUserStep addr) [0..<length users] (None, map Some users, length users) of
        (err, arr, n) \<Rightarrow> (err, map the (take n arr)))"

text \<open>
  \<^verbatim>\<open>deleteSQLChainUser\<close>: a nil marker in dirty is dereferenced (\<open>dst.Users\<close>); a
  readonly profile is copied into dirty before the loop runs. The loop works on the
  profile held by dirty, so what it has written by the time it panics stays there.
\<close>

definition deleteSQLChainUser :: "metaState \<Rightarrow> database_id \<Rightarrow> address \<Rightarrow> error option \<times> metaState" where
  "deleteSQLChainUser s k addr =
     (case (case databases (dirty s) k of
              Some d \<Rightarrow> Some d
            | None \<Rightarrow> map_option Some (roDatabases (readonly s) k)) of
        None \<Rightarrow> (Some ErrDatabaseNotFound, s)
      | Some None \<Rightarrow> (Some Panic, s)
      | Some (Some dst) \<Rightarrow>
          (case deleteUserLoop addr (Users dst) of
             (err, users) \<Rightarrow> (err, setDirtyDatabase s k (dst\<lparr>Users := users\<rparr>))))"

section \<open>Cluster membership\<close>

datatype ServerSuffrage = Peer | Learner | Staging

record server =
  Suffrage :: ServerSuffrage
  ServerID :: string
  ServerAddress :: string
  PubKey :: "nat option"

record configuration =
  ConfTerm :: u64
  Leader :: server
  Servers :: "server list"
  Signature :: "nat option"

text \<open>
  \<^verbatim>\<open>ConfigurationChangeCommand\<close> is a \<^verbatim>\<open>uint8\<close>: \<open>OtherCommand\<close> is a value outside the
  five named ones, which no case of the switch takes.
\<close>

datatype ConfigurationChangeCommand = AddStaging | AddLearner | Demote | RemoveServer | Promote | OtherCommand

record configurationChangeRequest =
  command :: ConfigurationChangeCommand
  serverID :: string
  serverAddress :: string
  prevIndex :: u64

datatype configuration_error =
    ConfigurationChanged
  | EmptyID
  | EmptyAddress
  | DuplicateID
  | DuplicateAddress
  | NoVoter

text \<open>
  The loop of \<^verbatim>\<open>checkConfiguration\<close> with its three variables: the set of identifiers
  seen, the set of addresses seen and the number of voters.
\<close>

fun checkServers :: "string set \<Rightarrow> string set \<Rightarrow> nat \<Rightarrow> server list \<Rightarrow> configuration_error option" where
  "checkServers idSet addressSet voters [] = (if voters = 0 then Some NoVoter else None)"
| "checkServers idSet addressSet voters (sv # rest) =
     (if ServerID sv = [] then Some EmptyID
      else if ServerAddress sv = [] then Some EmptyAddress
      else if ServerID sv \<in> idSet then Some DuplicateID
      else if ServerAddress sv \<in> addressSet then Some DuplicateAddress
      else checkServers (insert (ServerID sv) idSet) (insert (ServerAddress sv) addressSet)
             (if Suffrage sv = Peer then voters + 1 else voters) rest)"

definition checkConfiguration :: "configuration \<Rightarrow> configuration_error option" where
  "checkConfiguration c = checkServers {} {} 0 (Servers c)"

text \<open>
  The loops of \<^verbatim>\<open>nextConfiguration\<close>: each changes the first server it matches and
  breaks. \<open>None\<close> means that no server matched (\<open>found\<close> stayed false).
\<close>

fun addStagingLoop :: "configurationChangeRequest \<Rightarrow> server list \<Rightarrow> server list option" where
  "addStagingLoop change [] = None"
| "addStagingLoop change (sv # rest) =
     (if ServerID sv = serverID change then
        Some ((if Suffrage sv = Peer then sv\<lparr>ServerAddress := serverAddress change\<rparr>
               else \<lparr>Suffrage = Peer, ServerID = serverID change, ServerAddress = serverAddress change,
                     PubKey = None\<rparr>) # rest)
      else map_option ((#) sv) (addStagingLoop change rest))"

fun addLearnerLoop :: "configurationChangeRequest \<Rightarrow> server list \<Rightarrow> server list option" where
  "addLearnerLoop change [] = None"
| "addLearnerLoop change (sv # rest) =
     (if ServerID sv = serverID change then
        Some ((if Suffrage sv \<noteq> Learner then sv\<lparr>ServerAddress := serverAddress change\<rparr>
               else \<lparr>Suffrage = Learner, ServerID = serverID change, ServerAddress = serverAddress change,
                     PubKey = None\<rparr>) # rest)
      else map_option ((#) sv) (addLearnerLoop change rest))"

fun demoteLoop :: "configurationChangeRequest \<Rightarrow> server list \<Rightarrow> server list" where
  "demoteLoop change [] = []"
| "demoteLoop change (sv # rest) =
     (if ServerID sv = serverID change then sv\<lparr>Suffrage := Learner\<rparr> # rest
      else sv # demoteLoop change rest)"

fun removeServerLoop :: "configurationChangeRequest \<Rightarrow> server list \<Rightarrow> server list" where
  "removeServerLoop change [] = []"
| "removeServerLoop change (sv # rest) =
     (if ServerID sv = serverID change then rest else sv # removeServerLoop change rest)"

fun promoteLoop :: "configurationChangeRequest \<Rightarrow> server list \<Rightarrow> server list" where
  "promoteLoop change [] = []"
| "promoteLoop change (sv # rest) =
     (if ServerID sv = serverID change \<and> Suffrage sv = Staging then sv\<lparr>Suffrage := Peer\<rparr> # rest
      else sv # promoteLoop change rest)"

definition changedServers :: "configurationChangeRequest \<Rightarrow> server list \<Rightarrow> server list" where
  "changedServers change servers =
     (case command change of
        AddStaging \<Rightarrow>
          (case addStagingLoop change servers of
             Some servers' \<Rightarrow> servers'
           | None \<Rightarrow>
               servers @ [\<lparr>Suffrage = Peer, ServerID = serverID change,
                           ServerAddress = serverAddress change, PubKey = None\<rparr>])
      | AddLearner \<Rightarrow>
          (case addLearnerLoop change servers of
             Some servers' \<Rightarrow> servers'
           | None \<Rightarrow>
               servers @ [\<lparr>Suffrage = Learner, ServerID = serverID change,
                           ServerAddress = serverAddress change, PubKey = None\<rparr>])
      | Demote \<Rightarrow> demoteLoop change servers
      | RemoveServer \<Rightarrow> removeServerLoop change servers
      | Promote \<Rightarrow> promoteLoop change servers
      | OtherCommand \<Rightarrow> servers)"

definition nextConfiguration ::
  "configuration \<Rightarrow> u64 \<Rightarrow> configurationChangeRequest \<Rightarrow> configuration_error + configuration" where
  "nextConfiguration current currentIndex change =
     (if prevIndex change > 0 \<and> prevIndex change \<noteq> currentIndex then Inl ConfigurationChanged
      else
        (let configuration = current\<lparr>Servers := changedServers change (Servers current)\<rparr> in
         case checkConfiguration configuration of
           Some x \<Rightarrow> Inl x
         | None \<Rightarrow> Inr configuration))"

section \<open>Example states and transactions\<close>

text \<open>Concrete inputs on which the theorems below are run.\<close>

definition acct :: "address \<Rightarrow> account_nonce \<Rightarrow> u64 \<Rightarrow> u64 \<Rightarrow> account" where
  "acct a n p w = \<lparr>Address = a, NextNonce = n, TokenBalance = (\<lambda>tt. case tt of Particle \<Rightarrow> p | Wave \<Rightarrow> w)\<rparr>"

definition commitExample :: metaState where
  "commitExample =
     \<lparr>dirty = \<lparr>accounts = [1 \<mapsto> Some (acct 1 4 7 0), 2 \<mapsto> None], databases = Map.empty,
               provider = Map.empty\<rparr>,
      readonly = \<lparr>roAccounts = [2 \<mapsto> acct 2 0 5 5, 3 \<mapsto> acct 3 1 9 9], roDatabases = Map.empty,
                  roProvider = Map.empty\<rparr>\<rparr>"

definition srv :: "ServerSuffrage \<Rightarrow> string \<Rightarrow> string \<Rightarrow> server" where
  "srv f i a = \<lparr>Suffrage = f, ServerID = i, ServerAddress = a, PubKey = None\<rparr>"

definition confExample :: configuration where
  "confExample =
     \<lparr>ConfTerm = 1, Leader = srv Peer ''P1'' ''10.0.0.1'',
      Servers = [srv Peer ''P1'' ''10.0.0.1'', srv Peer ''P2'' ''10.0.0.2''], Signature = None\<rparr>"

definition removeP2 :: "u64 \<Rightarrow> configurationChangeRequest" where
  "removeP2 i = \<lparr>command = RemoveServer, serverID = ''P2'', serverAddress = [], prevIndex = i\<rparr>"

definition exampleEnv :: env where
  "exampleEnv =
     \<lparr>pubKeyHash = map_option of_nat,
      databaseID = (\<lambda>a. if a = 9 then ''chain9'' else []),
      fromAccountAndNonce = (\<lambda>a n. ''chain9''),
      accountAddress = (\<lambda>d. Some 9),
      QPS = 2, UpdatePeriod = 5, MinProviderDeposit = 10, NumberOfUserPermission = 3,
      localPrivateKey = Some 1, localNodeID = Some ''node'', nowUTC = 0,
      packAndSignBlock = (\<lambda>h k. Some (h, [])),
      encodeMsgPack = (\<lambda>b. Some []),
      arrearsIncome = (\<lambda>a b i. 0)\<rparr>"

definition chainUser :: "address \<Rightarrow> u64 \<Rightarrow> u64 \<Rightarrow> sqlchain_user" where
  "chainUser a d p = \<lparr>UserAddress = a, Permission = Admin, Status = Normal, Deposit = d, AdvancePayment = p\<rparr>"

definition chainMiner :: "address \<Rightarrow> u64 \<Rightarrow> u64 \<Rightarrow> miner_info" where
  "chainMiner a p r =
     \<lparr>MinerAddress = a, MinerNodeID = [], MinerDeposit = 10, EncryptionKey = [], PendingIncome = p,
      ReceivedIncome = r, UserArrears = []\<rparr>"

definition chainProfile :: "u64 \<Rightarrow> sqlchain_user list \<Rightarrow> miner_info list \<Rightarrow> sqlchain_profile" where
  "chainProfile g us ms =
     \<lparr>ID = ''chain9'', ChainAddress = 9, Period = sqlchainPeriod, GasPrice = g,
      ChainTokenType = Particle, Owner = 1, Users = us, Miners = ms, EncodedGenesis = []\<rparr>"

definition chainState :: "sqlchain_profile \<Rightarrow> metaState" where
  "chainState p =
     \<lparr>dirty = newMetaIndex,
      readonly = \<lparr>roAccounts = [1 \<mapsto> acct 1 0 100 0, 9 \<mapsto> acct 9 0 0 0],
                  roDatabases = [''chain9'' \<mapsto> p], roProvider = Map.empty\<rparr>\<rparr>"

definition accountsState :: metaState where
  "accountsState =
     \<lparr>dirty = newMetaIndex,
      readonly = \<lparr>roAccounts = [1 \<mapsto> acct 1 0 100 0], roDatabases = Map.empty,
                  roProvider = Map.empty\<rparr>\<rparr>"

definition transferOf :: "address \<Rightarrow> address \<Rightarrow> u64 \<Rightarrow> pubkey \<Rightarrow> transfer" where
  "transferOf a b n k =
     \<lparr>Sender = a, Receiver = b, Amount = n, TransferTokenType = Particle, TransferSignee = Some k\<rparr>"

definition txMethods :: "address \<Rightarrow> account_nonce \<Rightarrow> transaction_type \<Rightarrow> tx_methods" where
  "txMethods a n ty = \<lparr>GetAccountAddress = a, GetAccountNonce = n, GetTransactionType = ty\<rparr>"

text \<open>
  The resolution of one target miner in the words of the spec: a missing provider
  profile is \<open>NoSuchMiner\<close>, a profile for another user is \<open>MinerUserNotMatch\<close>, a
  profile with a higher gas price is \<open>GasPriceMismatch\<close>.
\<close>

definition minerError :: "metaState \<Rightarrow> address \<Rightarrow> u64 \<Rightarrow> address \<Rightarrow> error option" where
  "minerError s sender gasPrice m =
     (case loadProviderObject s m of
        None \<Rightarrow> Some ErrNoSuchMiner
      | Some po \<Rightarrow>
          if TargetUser po \<noteq> sender then Some ErrMinerUserNotMatch
          else if ProviderGasPrice po > gasPrice then Some ErrGasPriceMismatch
          else None)"

definition providerOf :: "address \<Rightarrow> address \<Rightarrow> u64 \<Rightarrow> provider_profile" where
  "providerOf m u g =
     \<lparr>Provider = m, Space = 0, Memory = 0, LoadAvgPerCPU = 0, TargetUser = u, ProviderDeposit = 10,
      ProviderGasPrice = g, ProviderNodeID = []\<rparr>"

definition providerState :: metaState where
  "providerState =
     \<lparr>dirty = newMetaIndex,
      readonly = \<lparr>roAccounts = [1 \<mapsto> acct 1 0 100 50], roDatabases = Map.empty,
                  roProvider = [5 \<mapsto> providerOf 5 1 1]\<rparr>\<rparr>"

definition createOf :: "address list \<Rightarrow> u64 \<Rightarrow> token_type \<Rightarrow> create_database" where
  "createOf ms adv tt =
     \<lparr>CreateOwner = 1, CreateSignee = Some 1, CreateNonce = 0, TargetMiners = ms, CreateGasPrice = 1,
      CreateAdvancePayment = adv, CreateTokenType = tt\<rparr>"

text \<open>
  \<open>keepsNonces s s'\<close>: every account that \<^verbatim>\<open>nextNonce\<close> finds in \<open>s\<close> is found in \<open>s'\<close>
  with the same nonce.
\<close>

definition keepsNonces :: "metaState \<Rightarrow> metaState \<Rightarrow> bool" where
  "keepsNonces s s' = (\<forall>a n. nextNonce s a = Inr n \<longrightarrow> nextNonce s' a = Inr n)"


definition billingOf :: "user_cost option list \<Rightarrow> update_billing" where
  "billingOf us = \<lparr>BillingReceiver = 9, BillingUsers = us\<rparr>"

definition costOf :: "address \<Rightarrow> u64 \<Rightarrow> address \<Rightarrow> u64 \<Rightarrow> user_cost" where
  "costOf u c m i = \<lparr>CostUser = u, Cost = c, CostMiners = [Some \<lparr>IncomeMiner = m, Income = i\<rparr>]\<rparr>"

text \<open>
  The sum of the balances of one token type over all accounts of the view (readonly
  overlaid by dirty, which is what \<open>loadAccountObject\<close> reads).
\<close>

definition totalBalance :: "token_type \<Rightarrow> metaState \<Rightarrow> nat" where
  "totalBalance tt s =
     (\<Sum>k \<in> dom (loadAccountObject s). unat (TokenBalance (the (loadAccountObject s k)) tt))"

text \<open>
  \<open>poisoned N st\<close>: the loop of \<^verbatim>\<open>deleteSQLChainUser\<close> has panicked, or index \<open>N\<close> of the
  backing array is nil and lies outside the current slice.
\<close>

definition poisoned :: "nat \<Rightarrow> error option \<times> sqlchain_user option list \<times> nat \<Rightarrow> bool" where
  "poisoned N st =
     (case st of
        (Some x, arr, n) \<Rightarrow> x = Panic
      | (None, arr, n) \<Rightarrow> N < length arr \<and> arr ! N = None \<and> n \<le> N)"

text \<open>An account whose next nonce is the largest 32-bit value.\<close>

definition wrapState :: metaState where
  "wrapState =
     \<lparr>dirty = newMetaIndex,
      readonly = \<lparr>roAccounts = [1 \<mapsto> acct 1 4294967295 100 0], roDatabases = Map.empty,
                  roProvider = Map.empty\<rparr>\<rparr>"

section \<open>Properties of commit\<close>

lemma commitEntry_apply: "commitEntry (k0, v0) ro k = (if k = k0 then v0 else ro k)"
  by (simp add: commitEntry_def split: option.splits)

lemma fold_commitEntry:
  "(\<And>k v. (k, v) \<in> set kvs \<Longrightarrow> d k = Some v) \<Longrightarrow>
   fold commitEntry kvs ro k = (if k \<in> fst ` set kvs then the (d k) else ro k)"
proof (induction kvs arbitrary: ro)
  case Nil
  then show ?case by simp
next
  case (Cons kv kvs)
  obtain k0 v0 where kv: "kv = (k0, v0)" by (cases kv)
  have d0: "d k0 = Some v0" using Cons.prems [of k0 v0] by (simp add: kv)
  have ih: "fold commitEntry kvs (commitEntry kv ro) k =
      (if k \<in> fst ` set kvs then the (d k) else commitEntry kv ro k)"
    by (rule Cons.IH) (simp add: Cons.prems)
  have "fold commitEntry (kv # kvs) ro k = fold commitEntry kvs (commitEntry kv ro) k"
    by simp
  also have "\<dots> = (if k \<in> fst ` set (kv # kvs) then the (d k) else ro k)"
    unfolding ih using d0 by (simp add: kv commitEntry_apply)
  finally show ?case .
qed

lemma fold_commitEntry_overlay:
  assumes "set kvs = Map.graph d"
  shows "fold commitEntry kvs ro = overlay d ro"
proof
  fix k
  have in_graph: "\<And>k v. (k, v) \<in> set kvs \<Longrightarrow> d k = Some v"
    using assms by (simp add: in_graphD)
  have dom: "k \<in> fst ` set kvs \<longleftrightarrow> d k \<noteq> None"
    using assms by (force simp: Map.graph_def)
  show "fold commitEntry kvs ro k = overlay d ro k"
    using fold_commitEntry [of kvs d ro k, OF in_graph] dom
    by (auto simp: overlay_def split: option.splits)
qed

text \<open>
  C1. After \<^verbatim>\<open>commit\<close>, whatever the order in which the three dirty maps are visited,
  dirty is empty and each readonly map is the fold of the old dirty map over the old
  readonly map: a dirty object replaces the readonly entry, a dirty nil marker deletes
  it, and a key absent from dirty keeps its readonly entry.
\<close>

theorem commit_folds_dirty_into_readonly:
  assumes "set as = Map.graph (accounts (dirty s))"
    and "set ds = Map.graph (databases (dirty s))"
    and "set ps = Map.graph (provider (dirty s))"
  shows "dirty (commit as ds ps s) = newMetaIndex
    \<and> roAccounts (readonly (commit as ds ps s)) = overlay (accounts (dirty s)) (roAccounts (readonly s))
    \<and> roDatabases (readonly (commit as ds ps s)) = overlay (databases (dirty s)) (roDatabases (readonly s))
    \<and> roProvider (readonly (commit as ds ps s)) = overlay (provider (dirty s)) (roProvider (readonly s))
    \<and> (\<forall>k v. accounts (dirty s) k = Some (Some v) \<longrightarrow> roAccounts (readonly (commit as ds ps s)) k = Some v)
    \<and> (\<forall>k. accounts (dirty s) k = Some None \<longrightarrow> roAccounts (readonly (commit as ds ps s)) k = None)
    \<and> (\<forall>k. accounts (dirty s) k = None \<longrightarrow>
          roAccounts (readonly (commit as ds ps s)) k = roAccounts (readonly s) k)
    \<and> (\<forall>k v. databases (dirty s) k = Some (Some v) \<longrightarrow> roDatabases (readonly (commit as ds ps s)) k = Some v)
    \<and> (\<forall>k. databases (dirty s) k = Some None \<longrightarrow> roDatabases (readonly (commit as ds ps s)) k = None)
    \<and> (\<forall>k. databases (dirty s) k = None \<longrightarrow>
          roDatabases (readonly (commit as ds ps s)) k = roDatabases (readonly s) k)
    \<and> (\<forall>k v. provider (dirty s) k = Some (Some v) \<longrightarrow> roProvider (readonly (commit as ds ps s)) k = Some v)
    \<and> (\<forall>k. provider (dirty s) k = Some None \<longrightarrow> roProvider (readonly (commit as ds ps s)) k = None)
    \<and> (\<forall>k. provider (dirty s) k = None \<longrightarrow>
          roProvider (readonly (commit as ds ps s)) k = roProvider (readonly s) k)"
  using assms by (simp add: commit_def fold_commitEntry_overlay overlay_def)

lemma commitExample_graph:
  "set [(1, Some (acct 1 4 7 0)), (2, None)] = Map.graph (accounts (dirty commitExample))"
  by (auto simp: commitExample_def Map.graph_def split: if_splits)

theorem commit_folds_dirty_into_readonly_witness:
  "roAccounts (readonly (commit [(1, Some (acct 1 4 7 0)), (2, None)] [] [] commitExample)) 1
     = Some (acct 1 4 7 0)
   \<and> roAccounts (readonly (commit [(1, Some (acct 1 4 7 0)), (2, None)] [] [] commitExample)) 2 = None
   \<and> roAccounts (readonly (commit [(1, Some (acct 1 4 7 0)), (2, None)] [] [] commitExample)) 3
     = Some (acct 3 1 9 9)
   \<and> dirty (commit [(1, Some (acct 1 4 7 0)), (2, None)] [] [] commitExample) = newMetaIndex"
  using commit_folds_dirty_into_readonly
    [of "[(1, Some (acct 1 4 7 0)), (2, None)]" commitExample "[]" "[]", OF commitExample_graph]
  by (simp add: commitExample_def overlay_def)

section \<open>Properties of the membership changes\<close>

lemma checkServers_None_iff:
  "checkServers idSet addressSet voters servers = None \<longleftrightarrow>
     (\<forall>sv \<in> set servers. ServerID sv \<noteq> [] \<and> ServerAddress sv \<noteq> [])
     \<and> distinct (map ServerID servers) \<and> ServerID ` set servers \<inter> idSet = {}
     \<and> distinct (map ServerAddress servers) \<and> ServerAddress ` set servers \<inter> addressSet = {}
     \<and> (voters \<noteq> 0 \<or> (\<exists>sv \<in> set servers. Suffrage sv = Peer))"
proof (induction servers arbitrary: idSet addressSet voters)
  case Nil
  then show ?case by simp
next
  case (Cons sv rest)
  show ?case
    by (simp add: Cons.IH) blast
qed

text \<open>
  C9. \<^verbatim>\<open>nextConfiguration\<close> fails when \<open>change.prevIndex\<close> is non-zero and differs from
  the current index; and a configuration that it returns passes \<^verbatim>\<open>checkConfiguration\<close>:
  no server has an empty identifier or address, no identifier and no address occurs
  twice, and at least one server is a Peer.
\<close>

theorem nextConfiguration_checked:
  "(prevIndex change \<noteq> 0 \<and> prevIndex change \<noteq> currentIndex \<longrightarrow>
      (\<exists>x. nextConfiguration current currentIndex change = Inl x))
   \<and> (nextConfiguration current currentIndex change = Inr c \<longrightarrow>
        checkConfiguration c = None
        \<and> (\<forall>sv \<in> set (Servers c). ServerID sv \<noteq> [] \<and> ServerAddress sv \<noteq> [])
        \<and> distinct (map ServerID (Servers c))
        \<and> distinct (map ServerAddress (Servers c))
        \<and> (\<exists>sv \<in> set (Servers c). Suffrage sv = Peer))"
proof (intro conjI impI)
  assume "prevIndex change \<noteq> 0 \<and> prevIndex change \<noteq> currentIndex"
  then show "\<exists>x. nextConfiguration current currentIndex change = Inl x"
    by (simp add: nextConfiguration_def word_gt_0)
next
  assume r: "nextConfiguration current currentIndex change = Inr c"
  then show ok: "checkConfiguration c = None"
    by (auto simp: nextConfiguration_def Let_def split: if_splits option.splits)
  then have "checkServers {} {} 0 (Servers c) = None"
    by (simp add: checkConfiguration_def)
  then have all: "(\<forall>sv \<in> set (Servers c). ServerID sv \<noteq> [] \<and> ServerAddress sv \<noteq> [])
     \<and> distinct (map ServerID (Servers c)) \<and> distinct (map ServerAddress (Servers c))
     \<and> (\<exists>sv \<in> set (Servers c). Suffrage sv = Peer)"
    by (simp add: checkServers_None_iff)
  from all show "\<forall>sv \<in> set (Servers c). ServerID sv \<noteq> [] \<and> ServerAddress sv \<noteq> []" by blast
  from all show "distinct (map ServerID (Servers c))" by blast
  from all show "distinct (map ServerAddress (Servers c))" by blast
  from all show "\<exists>sv \<in> set (Servers c). Suffrage sv = Peer" by blast
qed

lemma nextConfiguration_removeP2:
  "nextConfiguration confExample 5 (removeP2 0)
     = Inr (confExample\<lparr>Servers := [srv Peer ''P1'' ''10.0.0.1'']\<rparr>)"
  by (simp add: nextConfiguration_def confExample_def removeP2_def changedServers_def srv_def
      checkConfiguration_def)

theorem nextConfiguration_checked_witness:
  "(prevIndex (removeP2 3) \<noteq> 0 \<and> prevIndex (removeP2 3) \<noteq> 5
      \<and> (\<exists>x. nextConfiguration confExample 5 (removeP2 3) = Inl x))
   \<and> (nextConfiguration confExample 5 (removeP2 0)
          = Inr (confExample\<lparr>Servers := [srv Peer ''P1'' ''10.0.0.1'']\<rparr>)
      \<and> checkConfiguration (confExample\<lparr>Servers := [srv Peer ''P1'' ''10.0.0.1'']\<rparr>) = None
      \<and> distinct (map ServerID (Servers (confExample\<lparr>Servers := [srv Peer ''P1'' ''10.0.0.1'']\<rparr>)))
      \<and> (\<exists>sv \<in> set (Servers (confExample\<lparr>Servers := [srv Peer ''P1'' ''10.0.0.1'']\<rparr>)).
            Suffrage sv = Peer))"
  using nextConfiguration_checked [of "removeP2 3" 5 confExample]
    nextConfiguration_checked [of "removeP2 0" 5 confExample
      "confExample\<lparr>Servers := [srv Peer ''P1'' ''10.0.0.1'']\<rparr>"]
    nextConfiguration_removeP2
  by (simp add: removeP2_def)

text \<open>Removing the last voter is refused (scenario F of the spec).\<close>

lemma nextConfiguration_last_voter:
  "nextConfiguration (confExample\<lparr>Servers := [srv Peer ''P1'' ''10.0.0.1'']\<rparr>) 5
     \<lparr>command = RemoveServer, serverID = ''P1'', serverAddress = [], prevIndex = 0\<rparr> = Inl NoVoter"
  by (simp add: nextConfiguration_def confExample_def changedServers_def srv_def checkConfiguration_def)

section \<open>The nonce check of apply\<close>

lemma keepsNonces_refl [simp]: "keepsNonces s s"
  by (simp add: keepsNonces_def)

lemma keepsNonces_trans: "keepsNonces s s1 \<Longrightarrow> keepsNonces s1 s2 \<Longrightarrow> keepsNonces s s2"
  by (simp add: keepsNonces_def)

lemma nextNonce_Inr_iff:
  "nextNonce s a = Inr n \<longleftrightarrow> (\<exists>x. lookupAccount s a = Some (Some x) \<and> NextNonce x = n)"
  by (auto simp: nextNonce_def split: option.splits)

lemma keeps_same_accounts:
  "accounts (dirty s') = accounts (dirty s) \<Longrightarrow> roAccounts (readonly s') = roAccounts (readonly s)
   \<Longrightarrow> keepsNonces s s'"
  by (simp add: keepsNonces_def nextNonce_def lookupAccount_def cong: option.case_cong)

lemma keeps_loadOrStoreAccountObject: "keepsNonces s (snd (loadOrStoreAccountObject s k v))"
  by (auto simp: keepsNonces_def nextNonce_def lookupAccount_def loadOrStoreAccountObject_def
      split: option.splits)

lemma keeps_setDirtyAccount:
  "lookupAccount s k = Some (Some x) \<Longrightarrow> NextNonce x' = NextNonce x \<Longrightarrow> keepsNonces s (setDirtyAccount s k x')"
  by (auto simp: keepsNonces_def nextNonce_def lookupAccount_def setDirtyAccount_def
      split: option.splits)

lemma NextNonce_setBalance [simp]: "NextNonce (setBalance a tt v) = NextNonce a"
  by (simp add: setBalance_def)

lemma safeAdd_error: "safeAdd x y = Inl z \<Longrightarrow> z = ErrOverflow"
  by (simp add: safeAdd_def split: if_splits)

lemma safeSub_error: "safeSub x y = Inl z \<Longrightarrow> z = ErrUnderflow"
  by (simp add: safeSub_def split: if_splits)

lemma keeps_increaseAccountToken:
  "keepsNonces s (snd (increaseAccountToken s k amount tt))
   \<and> fst (increaseAccountToken s k amount tt) \<noteq> Some ErrInvalidAccountNonce"
  by (auto simp: increaseAccountToken_def keeps_setDirtyAccount split: option.splits sum.splits
      dest: safeAdd_error)

lemma keeps_decreaseAccountToken:
  "keepsNonces s (snd (decreaseAccountToken s k amount tt))
   \<and> fst (decreaseAccountToken s k amount tt) \<noteq> Some ErrInvalidAccountNonce"
  by (auto simp: decreaseAccountToken_def keeps_setDirtyAccount split: option.splits sum.splits
      dest: safeSub_error)

lemma lookupAccount_setDirtyAccount:
  "lookupAccount (setDirtyAccount s k x) k' = (if k' = k then Some (Some x) else lookupAccount s k')"
  by (simp add: lookupAccount_def setDirtyAccount_def cong: option.case_cong)

lemma keeps_transferAccountToken:
  "keepsNonces s (snd (transferAccountToken e s t))
   \<and> fst (transferAccountToken e s t) \<noteq> Some ErrInvalidAccountNonce"
proof -
  let ?s1 = "snd (loadOrStoreAccountObject s (Receiver t) (emptyAccount (Receiver t)))"
  have k1: "keepsNonces s ?s1" by (rule keeps_loadOrStoreAccountObject)
  have k2: "keepsNonces ?s1 (setDirtyAccount (setDirtyAccount ?s1 (Sender t) (setBalance so tt sb)) (Receiver t) (setBalance ro tt rb))"
    if "lookupAccount ?s1 (Sender t) = Some (Some so)" "lookupAccount ?s1 (Receiver t) = Some (Some ro)"
      "Sender t \<noteq> Receiver t"
    for so ro tt sb rb
  proof -
    have a: "keepsNonces ?s1 (setDirtyAccount ?s1 (Sender t) (setBalance so tt sb))"
      using that(1) by (rule keeps_setDirtyAccount) simp
    have "lookupAccount (setDirtyAccount ?s1 (Sender t) (setBalance so tt sb)) (Receiver t) = Some (Some ro)"
      using that(2,3) by (simp add: lookupAccount_setDirtyAccount)
    then have b: "keepsNonces (setDirtyAccount ?s1 (Sender t) (setBalance so tt sb))
        (setDirtyAccount (setDirtyAccount ?s1 (Sender t) (setBalance so tt sb)) (Receiver t) (setBalance ro tt rb))"
      by (rule keeps_setDirtyAccount) simp
    show ?thesis using a b by (rule keepsNonces_trans)
  qed
  show ?thesis
    using k1 k2
    by (auto simp: transferAccountToken_def Let_def split: option.splits sum.splits
        dest: safeAdd_error safeSub_error intro: keepsNonces_trans)
qed


lemma keeps_updateAccountInPlace:
  assumes "loadOrStoreAccountObject s k v = (Some ao, s1)" and "NextNonce x' = NextNonce ao"
  shows "keepsNonces s (updateAccountInPlace s1 k x')"
  using assms
  by (auto simp: keepsNonces_def nextNonce_def lookupAccount_def loadOrStoreAccountObject_def
      updateAccountInPlace_def setDirtyAccount_def split: option.splits)

lemma keeps_storeBaseAccount:
  "keepsNonces s (snd (storeBaseAccount s k v))
   \<and> fst (storeBaseAccount s k v) \<noteq> Some ErrInvalidAccountNonce"
proof (cases "loadOrStoreAccountObject s k v")
  case (Pair r s1)
  have k1: "keepsNonces s s1"
    using keeps_loadOrStoreAccountObject [of s k v] Pair by simp
  show ?thesis
  proof (cases r)
    case None
    then show ?thesis using Pair k1 by (simp add: storeBaseAccount_def)
  next
    case (Some ao)
    have "keepsNonces s (updateAccountInPlace s1 k (setBalance (setBalance ao Wave cb) Particle sb))" for cb sb
      using Pair Some by (intro keeps_updateAccountInPlace [of s k v ao]) simp_all
    then show ?thesis
      using Pair Some k1
      by (auto simp: storeBaseAccount_def split: sum.splits dest: safeAdd_error)
  qed
qed

lemma keeps_applyBillingFrom:
  "keepsNonces s (snd (applyBillingFrom s fees rewards i vs))
   \<and> fst (applyBillingFrom s fees rewards i vs) \<noteq> Some ErrInvalidAccountNonce"
proof (induction vs arbitrary: s i)
  case Nil
  then show ?case by simp
next
  case (Cons v vs)
  show ?case
  proof (cases v)
    case None
    then show ?thesis by simp
  next
    case (Some a)
    let ?s1 = "snd (loadOrStoreAccountObject s a (emptyAccount a))"
    have k1: "keepsNonces s ?s1" by (rule keeps_loadOrStoreAccountObject)
    obtain r2 s2 where r2: "increaseAccountCovenantBalance ?s1 a (fees ! i) = (r2, s2)"
      by (cases "increaseAccountCovenantBalance ?s1 a (fees ! i)")
    have k2: "keepsNonces ?s1 s2" "r2 \<noteq> Some ErrInvalidAccountNonce"
      using keeps_increaseAccountToken [of ?s1 a "fees ! i" Wave] r2
      by (simp_all add: increaseAccountCovenantBalance_def)
    obtain r3 s3 where r3: "increaseAccountStableBalance s2 a (rewards ! i) = (r3, s3)"
      by (cases "increaseAccountStableBalance s2 a (rewards ! i)")
    have k3: "keepsNonces s2 s3" "r3 \<noteq> Some ErrInvalidAccountNonce"
      using keeps_increaseAccountToken [of s2 a "rewards ! i" Particle] r3
      by (simp_all add: increaseAccountStableBalance_def)
    have k12: "keepsNonces s s2" using k1 k2(1) by (rule keepsNonces_trans)
    have k13: "keepsNonces s s3" using k12 k3(1) by (rule keepsNonces_trans)
    have k4: "keepsNonces s (snd (applyBillingFrom s3 fees rewards (Suc i) vs))"
      using k13 Cons.IH [of s3 "Suc i"] by (blast intro: keepsNonces_trans)
    show ?thesis
      using Some k1 k12 k13 k4 k2(2) k3(2) Cons.IH [of s3 "Suc i"] r2 r3
      by (auto simp: Let_def split: option.splits)
  qed
qed

lemma keeps_loadOrStoreProviderObject: "keepsNonces s (snd (loadOrStoreProviderObject s k v))"
  by (rule keeps_same_accounts) (auto simp: loadOrStoreProviderObject_def split: option.splits)

lemma keeps_loadOrStoreSQLChainObject: "keepsNonces s (snd (loadOrStoreSQLChainObject s k v))"
  by (rule keeps_same_accounts) (auto simp: loadOrStoreSQLChainObject_def split: option.splits)

lemma keeps_setDirtyDatabase: "keepsNonces s (setDirtyDatabase s k v)"
  by (rule keeps_same_accounts) (auto simp: setDirtyDatabase_def)

lemma accounts_deleteProviders:
  "accounts (dirty (fold (\<lambda>miner st. deleteProviderObject st miner) ms s)) = accounts (dirty s)
   \<and> roAccounts (readonly (fold (\<lambda>miner st. deleteProviderObject st miner) ms s)) = roAccounts (readonly s)"
  by (induction ms arbitrary: s) (simp_all add: deleteProviderObject_def)

lemma keeps_deleteProviders: "keepsNonces s (fold (\<lambda>miner st. deleteProviderObject st miner) ms s)"
  by (rule keeps_same_accounts) (simp_all add: accounts_deleteProviders)

lemma keeps_updateProviderList:
  "keepsNonces s (snd (updateProviderList e s tx))
   \<and> fst (updateProviderList e s tx) \<noteq> Some ErrInvalidAccountNonce"
proof (cases "pubKeyHash e (ProvideSignee tx)")
  case None
  then show ?thesis by (simp add: updateProviderList_def)
next
  case (Some sender)
  obtain r1 s1 where r1: "decreaseAccountStableBalance s sender (MinProviderDeposit e) = (r1, s1)"
    by (cases "decreaseAccountStableBalance s sender (MinProviderDeposit e)")
  have k1: "keepsNonces s s1" "r1 \<noteq> Some ErrInvalidAccountNonce"
    using keeps_decreaseAccountToken [of s sender "MinProviderDeposit e" Particle] r1
    by (simp_all add: decreaseAccountStableBalance_def)
  have k2: "keepsNonces s (snd (loadOrStoreProviderObject s1 sender pp))" for pp
    using k1(1) keeps_loadOrStoreProviderObject by (rule keepsNonces_trans)
  show ?thesis
    using Some r1 k1 k2 by (auto simp: updateProviderList_def split: option.splits)
qed


lemma resolveMiners_error:
  "resolveMiners s sender gasPrice ms = Inl x \<Longrightarrow>
     x = ErrNoSuchMiner \<or> x = ErrMinerUserNotMatch \<or> x = ErrGasPriceMismatch"
  by (induction ms arbitrary: x) (auto split: option.splits if_splits sum.splits)

lemma generateGenesisBlock_error: "generateGenesisBlock e dbID = Inl x \<Longrightarrow> x = ErrExternal"
  by (auto simp: generateGenesisBlock_def split: option.splits)

lemma keeps_matchProvidersWithUser:
  "keepsNonces s (snd (matchProvidersWithUser e s tx))
   \<and> fst (matchProvidersWithUser e s tx) \<noteq> Some ErrInvalidAccountNonce"
proof -
  have k1: "keepsNonces s (snd (decreaseAccountToken s k amount tt))"
    "fst (decreaseAccountToken s k amount tt) \<noteq> Some ErrInvalidAccountNonce" for k amount tt
    using keeps_decreaseAccountToken [of s k amount tt] by simp_all
  have final: "keepsNonces s
      (fold (\<lambda>miner st. deleteProviderObject st miner) ms
        (snd (loadOrStoreSQLChainObject (snd (loadOrStoreAccountObject s1 dbAddr acc)) dbID sp)))"
    if "keepsNonces s s1" for s1 ms dbAddr acc dbID sp
    using that
    by (blast intro: keepsNonces_trans keeps_deleteProviders keeps_loadOrStoreSQLChainObject
        keeps_loadOrStoreAccountObject)
  show ?thesis
    unfolding matchProvidersWithUser_def Let_def
    using k1 final
    by (auto split: option.splits sum.splits prod.splits
        dest: safeAdd_error resolveMiners_error generateGenesisBlock_error
        simp: prod_eq_iff)
qed

lemma keeps_updatePermission:
  "keepsNonces s (snd (updatePermission e s tx))
   \<and> fst (updatePermission e s tx) \<noteq> Some ErrInvalidAccountNonce"
  by (auto simp: updatePermission_def keeps_setDirtyDatabase split: option.splits prod.splits)

lemma keeps_updateKeys:
  "keepsNonces s (snd (updateKeys e s a tx))
   \<and> fst (updateKeys e s a tx) \<noteq> Some ErrInvalidAccountNonce"
  by (auto simp: updateKeys_def Let_def split: option.splits)

lemma keeps_updateBilling:
  "keepsNonces s (snd (updateBilling e s a tx))
   \<and> fst (updateBilling e s a tx) \<noteq> Some ErrInvalidAccountNonce"
  by (auto simp: updateBilling_def keeps_setDirtyDatabase split: option.splits prod.splits)

lemma creditUser_error:
  "creditUser e sqlchain t err user = (Some x, r) \<Longrightarrow> x = ErrWrongTokenType \<or> x = ErrOverflow \<or> err = Some x"
  by (auto simp: creditUser_def Let_def split: if_splits sum.splits dest: safeAdd_error)

lemma creditUsers_error:
  "creditUsers e sqlchain t err users = Some (Some x, r) \<Longrightarrow>
     x = ErrWrongTokenType \<or> x = ErrOverflow \<or> err = Some x"
proof (induction users arbitrary: r)
  case Nil
  then show ?case by simp
next
  case (Cons u us)
  show ?case
  proof (cases "UserAddress u = Sender t")
    case True
    then show ?thesis
      using Cons.prems creditUser_error [of e sqlchain t err u x]
      by (auto split: prod.splits option.splits)
  next
    case False
    then show ?thesis
      using Cons.prems Cons.IH
      by (auto split: prod.splits option.splits)
  qed
qed

lemma transferSQLChainTokenBalance_state:
  "snd (transferSQLChainTokenBalance e s t) = s"
  by (auto simp: transferSQLChainTokenBalance_def Let_def loadSQLChainObject_def
      loadOrStoreSQLChainObject_def split: option.splits prod.splits)

lemma transferSQLChainTokenBalance_error:
  "fst (transferSQLChainTokenBalance e s t) \<noteq> Some ErrInvalidAccountNonce"
  by (auto simp: transferSQLChainTokenBalance_def Let_def split: option.splits prod.splits
      dest: creditUsers_error)

lemma keeps_applyTransaction:
  "keepsNonces s (snd (applyTransaction e s t))
   \<and> fst (applyTransaction e s t) \<noteq> Some ErrInvalidAccountNonce"
proof (induction e s t rule: applyTransaction.induct)
  case (1 e s m t)
  show ?case
    using transferSQLChainTokenBalance_state [of e s t] transferSQLChainTokenBalance_error [of e s t]
      keeps_transferAccountToken [of s e t]
    by (auto split: prod.splits)
next
  case (2 e s m t)
  then show ?case using keeps_applyBillingFrom by (simp add: applyBilling_def)
next
  case (3 e s m t)
  then show ?case using keeps_storeBaseAccount by simp
next
  case (4 e s m t)
  then show ?case using keeps_updateProviderList by simp
next
  case (5 e s m t)
  then show ?case using keeps_matchProvidersWithUser by simp
next
  case (6 e s m t)
  then show ?case using keeps_updatePermission by simp
next
  case (7 e s m t)
  then show ?case using keeps_updateKeys by simp
next
  case (8 e s m t)
  then show ?case using keeps_updateBilling by simp
next
  case (9 e s m)
  then show ?case by simp
next
  case (10 e s m t)
  then show ?case by simp
qed


lemma increaseNonce_bumps:
  "nextNonce s a = Inr n \<Longrightarrow>
     fst (increaseNonce s a) = None \<and> nextNonce (snd (increaseNonce s a)) a = Inr (n + 1)"
  by (auto simp: nextNonce_def increaseNonce_def lookupAccount_setDirtyAccount split: option.splits)

lemma increaseNonce_error: "fst (increaseNonce s a) \<noteq> Some ErrInvalidAccountNonce"
  by (auto simp: increaseNonce_def split: option.splits)

lemma applyTx_nonce_cases:
  "(nextNonce s (GetAccountAddress (methods t)) = Inr n0 \<longrightarrow>
      (fst (applyTx e s t) = Some ErrInvalidAccountNonce \<longleftrightarrow> GetAccountNonce (methods t) \<noteq> n0)
      \<and> (fst (applyTx e s t) = None \<longrightarrow>
            nextNonce (snd (applyTx e s t)) (GetAccountAddress (methods t)) = Inr (n0 + 1))
      \<and> (fst (applyTx e s t) \<noteq> None \<longrightarrow>
            nextNonce (snd (applyTx e s t)) (GetAccountAddress (methods t)) = Inr n0))
   \<and> (nextNonce s (GetAccountAddress (methods t)) = Inl ErrAccountNotFound
        \<and> GetTransactionType (methods t) \<noteq> TransactionTypeBaseAccount \<longrightarrow>
          applyTx e s t = (Some ErrAccountNotFound, s))
   \<and> (nextNonce s (GetAccountAddress (methods t)) = Inl ErrAccountNotFound
        \<and> GetTransactionType (methods t) = TransactionTypeBaseAccount \<longrightarrow>
          (fst (applyTx e s t) = Some ErrInvalidAccountNonce \<longleftrightarrow> GetAccountNonce (methods t) \<noteq> 0))"
proof -
  let ?a = "GetAccountAddress (methods t)"
  obtain r1 s1 where r1: "applyTransaction e s t = (r1, s1)"
    by (cases "applyTransaction e s t")
  have keep: "keepsNonces s s1" and r1_kind: "r1 \<noteq> Some ErrInvalidAccountNonce"
    using keeps_applyTransaction [of s e t] r1 by simp_all
  have inc_kind: "fst (increaseNonce s1 ?a) \<noteq> Some ErrInvalidAccountNonce"
    by (rule increaseNonce_error)
  have exists_case: "(fst (applyTx e s t) = Some ErrInvalidAccountNonce \<longleftrightarrow> GetAccountNonce (methods t) \<noteq> n0)
      \<and> (fst (applyTx e s t) = None \<longrightarrow> nextNonce (snd (applyTx e s t)) ?a = Inr (n0 + 1))
      \<and> (fst (applyTx e s t) \<noteq> None \<longrightarrow> nextNonce (snd (applyTx e s t)) ?a = Inr n0)"
    if n0: "nextNonce s ?a = Inr n0"
  proof -
    have n1: "nextNonce s1 ?a = Inr n0"
      using keep n0 by (simp add: keepsNonces_def)
    have inc: "fst (increaseNonce s1 ?a) = None" "nextNonce (snd (increaseNonce s1 ?a)) ?a = Inr (n0 + 1)"
      using increaseNonce_bumps [OF n1] by simp_all
    show ?thesis
    proof (cases "GetAccountNonce (methods t) = n0")
      case False
      then show ?thesis using n0 by (simp add: applyTx_def Let_def)
    next
      case True
      show ?thesis
      proof (cases r1)
        case None
        then have "applyTx e s t = increaseNonce s1 ?a"
          using True n0 r1 by (simp add: applyTx_def Let_def)
        then show ?thesis using inc True by simp
      next
        case (Some x)
        then have "applyTx e s t = (Some x, s1)"
          using True n0 r1 by (simp add: applyTx_def Let_def)
        then show ?thesis using n1 True r1_kind Some by simp
      qed
    qed
  qed
  have absent_other: "applyTx e s t = (Some ErrAccountNotFound, s)"
    if "nextNonce s ?a = Inl ErrAccountNotFound"
      "GetTransactionType (methods t) \<noteq> TransactionTypeBaseAccount"
    using that by (simp add: applyTx_def Let_def)
  have absent_base: "fst (applyTx e s t) = Some ErrInvalidAccountNonce \<longleftrightarrow> GetAccountNonce (methods t) \<noteq> 0"
    if "nextNonce s ?a = Inl ErrAccountNotFound"
      "GetTransactionType (methods t) = TransactionTypeBaseAccount"
    using that r1 r1_kind inc_kind
    by (auto simp: applyTx_def Let_def split: option.splits)
  show ?thesis
    using exists_case absent_other absent_base by blast
qed

lemma nextNonce_view:
  "loadAccountObject s a = Some acc \<Longrightarrow> nextNonce s a = Inr (NextNonce acc)"
  by (auto simp: nextNonce_def lookupAccount_def loadAccountObject_def split: option.splits)

lemma nextNonce_absent:
  "accounts (dirty s) a = None \<Longrightarrow> roAccounts (readonly s) a = None \<Longrightarrow>
   nextNonce s a = Inl ErrAccountNotFound"
  by (simp add: nextNonce_def lookupAccount_def)

lemma apply_bootstrap:
  assumes "accounts (dirty s) (GetAccountAddress m) = None"
    and "roAccounts (readonly s) (GetAccountAddress m) = None"
    and "GetTransactionType m = TransactionTypeBaseAccount"
    and "GetAccountNonce m = 0"
    and "BaseAddress b = GetAccountAddress m"
  shows "fst (applyTx e s (Tx m (BaseAccountTx b))) = None
    \<and> nextNonce (snd (applyTx e s (Tx m (BaseAccountTx b)))) (GetAccountAddress m)
        = Inr (NextNonce (BaseAccount b) + 1)"
proof -
  let ?a = "GetAccountAddress m" and ?v = "BaseAccount b"
  have nonce: "nextNonce s ?a = Inl ErrAccountNotFound"
    using assms(1,2) by (rule nextNonce_absent)
  have store: "storeBaseAccount s (BaseAddress b) ?v = (None, setDirtyAccount s ?a ?v)"
    using assms(1,2,5)
    by (simp add: storeBaseAccount_def loadOrStoreAccountObject_def setDirtyAccount_def)
  have inc: "increaseNonce (setDirtyAccount s ?a ?v) ?a
      = (None, setDirtyAccount (setDirtyAccount s ?a ?v) ?a (?v\<lparr>NextNonce := NextNonce ?v + 1\<rparr>))"
    by (simp add: increaseNonce_def lookupAccount_setDirtyAccount)
  have "applyTx e s (Tx m (BaseAccountTx b))
      = (None, setDirtyAccount (setDirtyAccount s ?a ?v) ?a (?v\<lparr>NextNonce := NextNonce ?v + 1\<rparr>))"
    using nonce store inc assms(3,4) by (simp add: applyTx_def Let_def)
  then show ?thesis
    by (simp add: nextNonce_def lookupAccount_setDirtyAccount)
qed

lemma nonce_bump_mod: "unat ((n :: account_nonce) + 1) = (unat n + 1) mod 2 ^ 32"
  by (simp add: unat_word_ariths)

text \<open>
  C2, as amended. When the view holds the sender's account with next nonce \<open>n0\<close>,
  \<^verbatim>\<open>apply\<close> fails with \<open>InvalidAccountNonce\<close> exactly when the nonce of the transaction
  differs from \<open>n0\<close>; when it succeeds the sender's next nonce is \<open>n0 + 1\<close> in 32-bit
  arithmetic, that is \<open>(n0 + 1) mod 2^32\<close>: one greater, except that \<open>2^32 - 1\<close> is
  followed by 0; and when it fails the sender's next nonce is still \<open>n0\<close>. When
  neither layer has an entry for the sender (no object and no nil marker) and the
  transaction is not a BaseAccount, \<^verbatim>\<open>apply\<close> fails with \<open>AccountNotFound\<close> and leaves
  the state as it was; for a BaseAccount the expected nonce is then 0, and a
  BaseAccount with nonce 0 that creates the sender's account succeeds and leaves it
  with the next nonce that the account of the transaction carries, plus one. Nothing
  is said of a sender under a nil marker in dirty.
\<close>

theorem apply_nonce_check:
  "(loadAccountObject s (GetAccountAddress (methods t)) = Some acc \<longrightarrow>
      (fst (applyTx e s t) = Some ErrInvalidAccountNonce \<longleftrightarrow> GetAccountNonce (methods t) \<noteq> NextNonce acc)
      \<and> (fst (applyTx e s t) = None \<longrightarrow>
            nextNonce (snd (applyTx e s t)) (GetAccountAddress (methods t)) = Inr (NextNonce acc + 1)
            \<and> unat (NextNonce acc + 1) = (unat (NextNonce acc) + 1) mod 2 ^ 32)
      \<and> (fst (applyTx e s t) \<noteq> None \<longrightarrow>
            nextNonce (snd (applyTx e s t)) (GetAccountAddress (methods t)) = Inr (NextNonce acc)))
   \<and> (accounts (dirty s) (GetAccountAddress (methods t)) = None
        \<and> roAccounts (readonly s) (GetAccountAddress (methods t)) = None
        \<and> GetTransactionType (methods t) \<noteq> TransactionTypeBaseAccount \<longrightarrow>
          applyTx e s t = (Some ErrAccountNotFound, s))
   \<and> (accounts (dirty s) (GetAccountAddress (methods t)) = None
        \<and> roAccounts (readonly s) (GetAccountAddress (methods t)) = None
        \<and> GetTransactionType (methods t) = TransactionTypeBaseAccount \<longrightarrow>
          (fst (applyTx e s t) = Some ErrInvalidAccountNonce \<longleftrightarrow> GetAccountNonce (methods t) \<noteq> 0))
   \<and> (accounts (dirty s) (GetAccountAddress m) = None
        \<and> roAccounts (readonly s) (GetAccountAddress m) = None
        \<and> GetTransactionType m = TransactionTypeBaseAccount
        \<and> GetAccountNonce m = 0 \<and> BaseAddress b = GetAccountAddress m \<longrightarrow>
          fst (applyTx e s (Tx m (BaseAccountTx b))) = None
          \<and> nextNonce (snd (applyTx e s (Tx m (BaseAccountTx b)))) (GetAccountAddress m)
              = Inr (NextNonce (BaseAccount b) + 1))"
  using applyTx_nonce_cases [of s t "NextNonce acc" e]
    nextNonce_view [of s "GetAccountAddress (methods t)" acc]
    nextNonce_absent [of s "GetAccountAddress (methods t)"]
    apply_bootstrap [of s m b e]
    nonce_bump_mod [of "NextNonce acc"]
  by blast

text \<open>
  The claim C2 as stated fails in two places. The sender's account carries the next
  nonce \<open>2^32 - 1\<close>: the transfer with that nonce is accepted and the next nonce is 0,
  not one greater. The sender's account is deleted in dirty (a nil marker, so the view
  has no account): \<^verbatim>\<open>nextNonce\<close> dereferences the marker and \<^verbatim>\<open>apply\<close> panics instead
  of failing with \<open>AccountNotFound\<close>.
\<close>

theorem apply_nonce_wraps_counterexample:
  "loadAccountObject wrapState 1 = Some (acct 1 4294967295 100 0)
   \<and> unat (NextNonce (acct 1 4294967295 100 0)) = 4294967295
   \<and> fst (applyTx exampleEnv wrapState
         (Tx (txMethods 1 4294967295 TransactionTypeTransfer) (TransferTx (transferOf 1 2 30 1)))) = None
   \<and> nextNonce (snd (applyTx exampleEnv wrapState
         (Tx (txMethods 1 4294967295 TransactionTypeTransfer) (TransferTx (transferOf 1 2 30 1))))) 1
       = Inr 0
   \<and> loadAccountObject (deleteAccountObject accountsState 1) 1 = None
   \<and> fst (applyTx exampleEnv (deleteAccountObject accountsState 1)
         (Tx (txMethods 1 0 TransactionTypeTransfer) (TransferTx (transferOf 1 2 30 1)))) = Some Panic"
  by (simp add: applyTx_def txMethods_def nextNonce_def increaseNonce_def
      transferSQLChainTokenBalance_def transferAccountToken_def exampleEnv_def accountsState_def
      wrapState_def deleteAccountObject_def loadAccountObject_def
      transferOf_def loadSQLChainObject_def newMetaIndex_def loadOrStoreAccountObject_def
      lookupAccount_def emptyAccount_def acct_def safeSub_def safeAdd_def setDirtyAccount_def
      setBalance_def)

lemma accountsState_nonce:
  "loadAccountObject accountsState 1 = Some (acct 1 0 100 0)
   \<and> accounts (dirty accountsState) 2 = None \<and> roAccounts (readonly accountsState) 2 = None"
  by (simp add: loadAccountObject_def accountsState_def newMetaIndex_def)

lemma accountsState_transfer:
  "fst (applyTx exampleEnv accountsState
         (Tx (txMethods 1 0 TransactionTypeTransfer) (TransferTx (transferOf 1 2 30 1)))) = None"
  by (simp add: applyTx_def txMethods_def nextNonce_def increaseNonce_def
      transferSQLChainTokenBalance_def transferAccountToken_def exampleEnv_def accountsState_def
      transferOf_def loadSQLChainObject_def newMetaIndex_def loadOrStoreAccountObject_def
      lookupAccount_def emptyAccount_def acct_def safeSub_def safeAdd_def setDirtyAccount_def
      setBalance_def)

theorem apply_nonce_check_witness:
  "loadAccountObject accountsState 1 = Some (acct 1 0 100 0)
   \<and> fst (applyTx exampleEnv accountsState
         (Tx (txMethods 1 0 TransactionTypeTransfer) (TransferTx (transferOf 1 2 30 1)))) = None
   \<and> nextNonce (snd (applyTx exampleEnv accountsState
         (Tx (txMethods 1 0 TransactionTypeTransfer) (TransferTx (transferOf 1 2 30 1))))) 1 = Inr 1
   \<and> fst (applyTx exampleEnv accountsState
         (Tx (txMethods 1 5 TransactionTypeTransfer) (TransferTx (transferOf 1 2 30 1))))
       = Some ErrInvalidAccountNonce
   \<and> nextNonce (snd (applyTx exampleEnv accountsState
         (Tx (txMethods 1 5 TransactionTypeTransfer) (TransferTx (transferOf 1 2 30 1))))) 1 = Inr 0
   \<and> accounts (dirty accountsState) 2 = None \<and> roAccounts (readonly accountsState) 2 = None
   \<and> applyTx exampleEnv accountsState
         (Tx (txMethods 2 0 TransactionTypeTransfer) (TransferTx (transferOf 2 1 30 2)))
       = (Some ErrAccountNotFound, accountsState)
   \<and> fst (applyTx exampleEnv accountsState
         (Tx (txMethods 2 3 TransactionTypeBaseAccount)
            (BaseAccountTx \<lparr>BaseAddress = 2, BaseAccount = acct 2 0 5 5\<rparr>)))
       = Some ErrInvalidAccountNonce
   \<and> fst (applyTx exampleEnv accountsState
         (Tx (txMethods 2 0 TransactionTypeBaseAccount)
            (BaseAccountTx \<lparr>BaseAddress = 2, BaseAccount = acct 2 7 5 5\<rparr>))) = None
   \<and> nextNonce (snd (applyTx exampleEnv accountsState
         (Tx (txMethods 2 0 TransactionTypeBaseAccount)
            (BaseAccountTx \<lparr>BaseAddress = 2, BaseAccount = acct 2 7 5 5\<rparr>)))) 2 = Inr 8"
  using apply_nonce_check [of accountsState
      "Tx (txMethods 2 3 TransactionTypeBaseAccount)
         (BaseAccountTx \<lparr>BaseAddress = 2, BaseAccount = acct 2 0 5 5\<rparr>)" "acct 1 0 100 0" exampleEnv
      "txMethods 2 0 TransactionTypeBaseAccount" "\<lparr>BaseAddress = 2, BaseAccount = acct 2 7 5 5\<rparr>"]
    apply_nonce_check [of accountsState
      "Tx (txMethods 1 0 TransactionTypeTransfer) (TransferTx (transferOf 1 2 30 1))"
      "acct 1 0 100 0" exampleEnv
      "txMethods 2 0 TransactionTypeBaseAccount" "\<lparr>BaseAddress = 2, BaseAccount = acct 2 7 5 5\<rparr>"]
    apply_nonce_check [of accountsState
      "Tx (txMethods 1 5 TransactionTypeTransfer) (TransferTx (transferOf 1 2 30 1))"
      "acct 1 0 100 0" exampleEnv
      "txMethods 2 0 TransactionTypeBaseAccount" "\<lparr>BaseAddress = 2, BaseAccount = acct 2 7 5 5\<rparr>"]
    apply_nonce_check [of accountsState
      "Tx (txMethods 2 0 TransactionTypeTransfer) (TransferTx (transferOf 2 1 30 2))"
      "acct 1 0 100 0" exampleEnv
      "txMethods 2 0 TransactionTypeBaseAccount" "\<lparr>BaseAddress = 2, BaseAccount = acct 2 7 5 5\<rparr>"]
    accountsState_nonce accountsState_transfer
  by (simp add: txMethods_def acct_def)

section \<open>Creating a database: failure and success\<close>

lemma resolveMiners_first_failure:
  "(\<forall>m' \<in> set pre. minerError s sender gasPrice m' = None) \<Longrightarrow>
   minerError s sender gasPrice m = Some x \<Longrightarrow>
   resolveMiners s sender gasPrice (pre @ m # post) = Inl x"
  by (induction pre) (auto simp: minerError_def split: option.splits if_splits)

text \<open>
  C5. Let \<open>m\<close> be the first target miner whose resolution fails, with error \<open>x\<close>
  (\<open>NoSuchMiner\<close>, \<open>MinerUserNotMatch\<close> or \<open>GasPriceMismatch\<close>). Then
  \<^verbatim>\<open>matchProvidersWithUser\<close> fails and leaves the state exactly as it was: no provider
  profile, balance, account or database changes. When the checks that come before the
  resolution pass (the signee hashes to the owner, the gas price is not 0, the advance
  payment covers the minimum), the error is \<open>x\<close>, and \<^verbatim>\<open>apply\<close> returns \<open>x\<close> with the
  state unchanged once the nonce check is passed.
\<close>

theorem create_database_miner_failure:
  assumes "TargetMiners tx = pre @ m # post"
    and "\<forall>m' \<in> set pre. minerError s (CreateOwner tx) (CreateGasPrice tx) m' = None"
    and "minerError s (CreateOwner tx) (CreateGasPrice tx) m = Some x"
  shows "fst (matchProvidersWithUser e s tx) \<noteq> None
    \<and> snd (matchProvidersWithUser e s tx) = s
    \<and> (pubKeyHash e (CreateSignee tx) = Some (CreateOwner tx) \<and> CreateGasPrice tx \<noteq> 0
         \<and> minDeposit e (CreateGasPrice tx) (of_nat (length (TargetMiners tx))) \<le> CreateAdvancePayment tx
        \<longrightarrow> matchProvidersWithUser e s tx = (Some x, s)
            \<and> (nextNonce s (GetAccountAddress mt) = Inr (GetAccountNonce mt)
                 \<longrightarrow> applyTx e s (Tx mt (CreateDatabaseTx tx)) = (Some x, s)))"
proof -
  have res: "resolveMiners s (CreateOwner tx) (CreateGasPrice tx) (TargetMiners tx) = Inl x"
    using assms by (simp add: resolveMiners_first_failure)
  have a: "fst (matchProvidersWithUser e s tx) \<noteq> None \<and> snd (matchProvidersWithUser e s tx) = s"
    using res by (auto simp: matchProvidersWithUser_def Let_def split: option.splits)
  have b: "matchProvidersWithUser e s tx = (Some x, s)"
    if "pubKeyHash e (CreateSignee tx) = Some (CreateOwner tx)" "CreateGasPrice tx \<noteq> 0"
      "minDeposit e (CreateGasPrice tx) (of_nat (length (TargetMiners tx))) \<le> CreateAdvancePayment tx"
    using that res by (simp add: matchProvidersWithUser_def Let_def not_less [symmetric] word_gt_0)
  have c: "applyTx e s (Tx mt (CreateDatabaseTx tx)) = (Some x, s)"
    if "matchProvidersWithUser e s tx = (Some x, s)"
      "nextNonce s (GetAccountAddress mt) = Inr (GetAccountNonce mt)"
    using that by (simp add: applyTx_def Let_def)
  show ?thesis using a b c by blast
qed

lemma providerState_missing_miner:
  "TargetMiners (createOf [5, 6] 20 Particle) = [5] @ 6 # []
   \<and> (\<forall>m' \<in> set [5]. minerError providerState (CreateOwner (createOf [5, 6] 20 Particle))
         (CreateGasPrice (createOf [5, 6] 20 Particle)) m' = None)
   \<and> minerError providerState (CreateOwner (createOf [5, 6] 20 Particle))
         (CreateGasPrice (createOf [5, 6] 20 Particle)) 6 = Some ErrNoSuchMiner
   \<and> pubKeyHash exampleEnv (CreateSignee (createOf [5, 6] 20 Particle))
       = Some (CreateOwner (createOf [5, 6] 20 Particle))
   \<and> CreateGasPrice (createOf [5, 6] 20 Particle) \<noteq> 0
   \<and> minDeposit exampleEnv (CreateGasPrice (createOf [5, 6] 20 Particle))
         (of_nat (length (TargetMiners (createOf [5, 6] 20 Particle))))
       \<le> CreateAdvancePayment (createOf [5, 6] 20 Particle)
   \<and> nextNonce providerState (GetAccountAddress (txMethods 1 0 TransactionTypeCreateDatabase))
       = Inr (GetAccountNonce (txMethods 1 0 TransactionTypeCreateDatabase))"
  by (simp add: minerError_def exampleEnv_def providerState_def createOf_def minDeposit_def
      loadProviderObject_def newMetaIndex_def providerOf_def nextNonce_def lookupAccount_def acct_def
      txMethods_def)

theorem create_database_miner_failure_witness:
  "matchProvidersWithUser exampleEnv providerState (createOf [5, 6] 20 Particle)
     = (Some ErrNoSuchMiner, providerState)
   \<and> applyTx exampleEnv providerState
        (Tx (txMethods 1 0 TransactionTypeCreateDatabase) (CreateDatabaseTx (createOf [5, 6] 20 Particle)))
     = (Some ErrNoSuchMiner, providerState)
   \<and> loadProviderObject providerState 5 = Some (providerOf 5 1 1)
   \<and> loadAccountStableBalance providerState 1 = Some 100"
proof -
  have run: "matchProvidersWithUser exampleEnv providerState (createOf [5, 6] 20 Particle)
       = (Some ErrNoSuchMiner, providerState)
     \<and> applyTx exampleEnv providerState
          (Tx (txMethods 1 0 TransactionTypeCreateDatabase) (CreateDatabaseTx (createOf [5, 6] 20 Particle)))
       = (Some ErrNoSuchMiner, providerState)"
    using create_database_miner_failure
      [of "createOf [5, 6] 20 Particle" "[5]" 6 "[]" providerState ErrNoSuchMiner exampleEnv
        "txMethods 1 0 TransactionTypeCreateDatabase"]
      providerState_missing_miner
    by blast
  have rest: "loadProviderObject providerState 5 = Some (providerOf 5 1 1)
     \<and> loadAccountStableBalance providerState 1 = Some 100"
    by (simp add: loadProviderObject_def loadAccountStableBalance_def providerState_def
        newMetaIndex_def acct_def)
  show ?thesis using run rest by blast
qed




lemma safeAdd_success:
  "safeAdd x y = Inr z \<Longrightarrow> unat x + unat y < 2 ^ 64 \<and> z = x + y \<and> unat z = unat x + unat y"
  by (auto simp: safeAdd_def unat_word_ariths split: if_splits)

lemma loadAccountObject_setDirtyAccount:
  "loadAccountObject (setDirtyAccount s k x) k' = (if k' = k then Some x else loadAccountObject s k')"
  by (simp add: loadAccountObject_def setDirtyAccount_def cong: option.case_cong)












section \<open>Billing of a chain: settlement\<close>

lemma settleMiners_fold:
  "fold (\<lambda>miner (isMiner, done). (isMiner \<or> MinerAddress miner = a, done @ [settleMiner miner])) ms (b, acc)
     = (b \<or> a \<in> MinerAddress ` set ms, acc @ map settleMiner ms)"
  by (induction ms arbitrary: b acc) auto

lemma settleMiners_eq: "settleMiners a ms = (a \<in> MinerAddress ` set ms, map settleMiner ms)"
  by (simp add: settleMiners_def settleMiners_fold)

lemma billUser_received:
  "map ReceivedIncome (snd (billUser e g cm um u ms)) = map ReceivedIncome ms"
  by (simp add: billUser_def Let_def comp_def)

lemma billUsers_received:
  "map ReceivedIncome (snd (billUsers e g cm um us ms)) = map ReceivedIncome ms"
proof (induction us arbitrary: ms)
  case Nil
  then show ?case by simp
next
  case (Cons u us)
  show ?case
    using Cons.IH [of "snd (billUser e g cm um u ms)"] billUser_received [of e g cm um u ms]
    by (auto split: prod.splits)
qed

lemma loadSQLChainObject_setDirtyDatabase:
  "loadSQLChainObject (setDirtyDatabase s k p) k = Some p"
  by (simp add: loadSQLChainObject_def setDirtyDatabase_def)

text \<open>
  C8, as amended. For an \<^verbatim>\<open>UpdateBilling\<close> whose chain exists: when the gas price of the
  chain is 0 the transaction returns at once without error, whoever sent it, and the
  state is unchanged (no income is rolled, nothing is billed); otherwise a sender that
  is not a miner of the chain gets \<open>InvalidSender\<close> and the state is unchanged;
  otherwise, when the transaction succeeds, the stored profile is the per-user billing
  run on the miners whose pending income was first added to their received income and
  set to 0, so every stored received income is the old received plus the old pending
  income.
\<close>

theorem update_billing_settlement:
  assumes "loadSQLChainObject s (databaseID e (BillingReceiver tx)) = Some p"
  shows "(GasPrice p = 0 \<longrightarrow> updateBilling e s a tx = (None, s))
    \<and> (GasPrice p \<noteq> 0 \<and> a \<notin> MinerAddress ` set (Miners p) \<longrightarrow>
          updateBilling e s a tx = (Some ErrInvalidSender, s))
    \<and> (GasPrice p \<noteq> 0 \<and> a \<in> MinerAddress ` set (Miners p) \<and> fst (updateBilling e s a tx) = None \<longrightarrow>
          (\<exists>costMap userMap p'.
              collectCosts (\<lambda>_. 0) (\<lambda>_ _. 0) (BillingUsers tx) = Some (costMap, userMap)
            \<and> loadSQLChainObject (snd (updateBilling e s a tx)) (databaseID e (BillingReceiver tx)) = Some p'
            \<and> (Users p', Miners p')
                = billUsers e (GasPrice p) costMap userMap (Users p) (map settleMiner (Miners p))
            \<and> map PendingIncome (map settleMiner (Miners p)) = map (\<lambda>_. 0) (Miners p)
            \<and> map ReceivedIncome (Miners p')
                = map (\<lambda>m. ReceivedIncome m + PendingIncome m) (Miners p)))"
proof (intro conjI impI)
  assume "GasPrice p = 0"
  then show "updateBilling e s a tx = (None, s)"
    using assms by (simp add: updateBilling_def)
next
  assume "GasPrice p \<noteq> 0 \<and> a \<notin> MinerAddress ` set (Miners p)"
  then show "updateBilling e s a tx = (Some ErrInvalidSender, s)"
    using assms by (simp add: updateBilling_def settleMiners_eq)
next
  assume h: "GasPrice p \<noteq> 0 \<and> a \<in> MinerAddress ` set (Miners p) \<and> fst (updateBilling e s a tx) = None"
  let ?k = "databaseID e (BillingReceiver tx)"
  let ?ms = "map settleMiner (Miners p)"
  from h assms obtain costMap userMap where
    costs: "collectCosts (\<lambda>_. 0) (\<lambda>_ _. 0) (BillingUsers tx) = Some (costMap, userMap)"
    by (cases "collectCosts (\<lambda>_. 0) (\<lambda>_ _. 0) (BillingUsers tx)")
       (auto simp: updateBilling_def settleMiners_eq)
  obtain us' ms' where bill: "billUsers e (GasPrice p) costMap userMap (Users p) ?ms = (us', ms')"
    by (cases "billUsers e (GasPrice p) costMap userMap (Users p) ?ms")
  let ?p' = "p\<lparr>Users := us', Miners := ms'\<rparr>"
  have run: "updateBilling e s a tx = (None, setDirtyDatabase s ?k ?p')"
    using h assms costs bill by (simp add: updateBilling_def settleMiners_eq)
  have stored: "loadSQLChainObject (snd (updateBilling e s a tx)) ?k = Some ?p'"
    by (simp add: run loadSQLChainObject_setDirtyDatabase)
  have pending: "map PendingIncome ?ms = map (\<lambda>_. 0) (Miners p)"
    by (simp add: settleMiner_def comp_def)
  have "map ReceivedIncome ms' = map ReceivedIncome ?ms"
    using billUsers_received [of e "GasPrice p" costMap userMap "Users p" ?ms] bill by simp
  then have received: "map ReceivedIncome (Miners ?p') = map (\<lambda>m. ReceivedIncome m + PendingIncome m) (Miners p)"
    by (simp add: settleMiner_def comp_def)
  show "\<exists>costMap userMap p'.
              collectCosts (\<lambda>_. 0) (\<lambda>_ _. 0) (BillingUsers tx) = Some (costMap, userMap)
            \<and> loadSQLChainObject (snd (updateBilling e s a tx)) (databaseID e (BillingReceiver tx)) = Some p'
            \<and> (Users p', Miners p')
                = billUsers e (GasPrice p) costMap userMap (Users p) (map settleMiner (Miners p))
            \<and> map PendingIncome (map settleMiner (Miners p)) = map (\<lambda>_. 0) (Miners p)
            \<and> map ReceivedIncome (Miners p')
                = map (\<lambda>m. ReceivedIncome m + PendingIncome m) (Miners p)"
    using costs stored bill pending received
    by (intro exI [of _ costMap] exI [of _ userMap] exI [of _ ?p']) simp
qed

text \<open>
  The claim C8 as stated fails on a chain whose gas price is 0: a sender that is not a
  miner gets no \<open>InvalidSender\<close>, and for a miner the pending income 3 is not rolled
  into the received income.
\<close>

theorem update_billing_gas_price_counterexample:
  "loadSQLChainObject (chainState (chainProfile 0 [chainUser 1 0 50] [chainMiner 5 3 4]))
      (databaseID exampleEnv (BillingReceiver (billingOf []))) 
     = Some (chainProfile 0 [chainUser 1 0 50] [chainMiner 5 3 4])
   \<and> 7 \<notin> MinerAddress ` set (Miners (chainProfile 0 [chainUser 1 0 50] [chainMiner 5 3 4]))
   \<and> updateBilling exampleEnv (chainState (chainProfile 0 [chainUser 1 0 50] [chainMiner 5 3 4])) 7 (billingOf [])
     = (None, chainState (chainProfile 0 [chainUser 1 0 50] [chainMiner 5 3 4]))
   \<and> updateBilling exampleEnv (chainState (chainProfile 0 [chainUser 1 0 50] [chainMiner 5 3 4])) 5 (billingOf [])
     = (None, chainState (chainProfile 0 [chainUser 1 0 50] [chainMiner 5 3 4]))
   \<and> map PendingIncome (Miners (chainProfile 0 [chainUser 1 0 50] [chainMiner 5 3 4])) = [3]"
  by (simp add: updateBilling_def loadSQLChainObject_def chainState_def chainProfile_def chainMiner_def
      exampleEnv_def billingOf_def newMetaIndex_def)

lemma billing_run:
  "loadSQLChainObject (chainState (chainProfile 2 [chainUser 1 0 50] [chainMiner 5 3 4]))
      (databaseID exampleEnv (BillingReceiver (billingOf [Some (costOf 1 10 5 10)])))
     = Some (chainProfile 2 [chainUser 1 0 50] [chainMiner 5 3 4])
   \<and> GasPrice (chainProfile 2 [chainUser 1 0 50] [chainMiner 5 3 4]) \<noteq> 0
   \<and> 5 \<in> MinerAddress ` set (Miners (chainProfile 2 [chainUser 1 0 50] [chainMiner 5 3 4]))
   \<and> 7 \<notin> MinerAddress ` set (Miners (chainProfile 2 [chainUser 1 0 50] [chainMiner 5 3 4]))
   \<and> fst (updateBilling exampleEnv (chainState (chainProfile 2 [chainUser 1 0 50] [chainMiner 5 3 4])) 5
           (billingOf [Some (costOf 1 10 5 10)])) = None"
  by (simp add: updateBilling_def loadSQLChainObject_def chainState_def chainProfile_def chainMiner_def
      exampleEnv_def billingOf_def newMetaIndex_def settleMiners_def settleMiner_def costOf_def
      billUser_def chainUser_def Let_def)


theorem update_billing_settlement_witness:
  "updateBilling exampleEnv (chainState (chainProfile 0 [chainUser 1 0 50] [chainMiner 5 3 4])) 7
       (billingOf [Some (costOf 1 10 5 10)])
     = (None, chainState (chainProfile 0 [chainUser 1 0 50] [chainMiner 5 3 4]))
   \<and> updateBilling exampleEnv (chainState (chainProfile 2 [chainUser 1 0 50] [chainMiner 5 3 4])) 7
       (billingOf [Some (costOf 1 10 5 10)])
     = (Some ErrInvalidSender, chainState (chainProfile 2 [chainUser 1 0 50] [chainMiner 5 3 4]))
   \<and> fst (updateBilling exampleEnv (chainState (chainProfile 2 [chainUser 1 0 50] [chainMiner 5 3 4])) 5
           (billingOf [Some (costOf 1 10 5 10)])) = None
   \<and> map_option (\<lambda>p. map ReceivedIncome (Miners p))
        (loadSQLChainObject
          (snd (updateBilling exampleEnv (chainState (chainProfile 2 [chainUser 1 0 50] [chainMiner 5 3 4])) 5
                 (billingOf [Some (costOf 1 10 5 10)])))
          ''chain9'')
     = Some [7]"
proof -
  let ?p0 = "chainProfile 0 [chainUser 1 0 50] [chainMiner 5 3 4]"
  let ?p2 = "chainProfile 2 [chainUser 1 0 50] [chainMiner 5 3 4]"
  let ?tx = "billingOf [Some (costOf 1 10 5 10)]"
  have k: "databaseID exampleEnv (BillingReceiver ?tx) = ''chain9''"
    by (simp add: exampleEnv_def billingOf_def)
  have l0: "loadSQLChainObject (chainState ?p0) (databaseID exampleEnv (BillingReceiver ?tx)) = Some ?p0"
    by (simp add: k loadSQLChainObject_def chainState_def newMetaIndex_def)
  have g0: "GasPrice ?p0 = 0" by (simp add: chainProfile_def)
  have a: "updateBilling exampleEnv (chainState ?p0) 7 ?tx = (None, chainState ?p0)"
    using update_billing_settlement [OF l0, of 7] g0 by blast
  have b: "updateBilling exampleEnv (chainState ?p2) 7 ?tx = (Some ErrInvalidSender, chainState ?p2)"
    using update_billing_settlement [of "chainState ?p2" exampleEnv ?tx ?p2 7] billing_run by blast
  have c: "map_option (\<lambda>p. map ReceivedIncome (Miners p))
        (loadSQLChainObject (snd (updateBilling exampleEnv (chainState ?p2) 5 ?tx)) ''chain9'') = Some [7]"
    using update_billing_settlement [of "chainState ?p2" exampleEnv ?tx ?p2 5] billing_run
    by (auto simp: k chainProfile_def chainMiner_def)
  show ?thesis using a b c billing_run by blast
qed

section \<open>Transfers between accounts conserve the balances\<close>

lemma finite_dom_view:
  assumes "finite (dom (accounts (dirty s)))" and "finite (dom (roAccounts (readonly s)))"
  shows "finite (dom (loadAccountObject s))"
proof (rule finite_subset)
  show "dom (loadAccountObject s) \<subseteq> dom (accounts (dirty s)) \<union> dom (roAccounts (readonly s))"
    by (auto simp: loadAccountObject_def split: option.splits)
  show "finite (dom (accounts (dirty s)) \<union> dom (roAccounts (readonly s)))"
    using assms by simp
qed

lemma sum_two_changed:
  fixes f g :: "'a \<Rightarrow> nat"
  assumes "finite D" and "a \<in> D" and "b \<in> D" and "a \<noteq> b"
    and "\<And>k. k \<in> D \<Longrightarrow> k \<noteq> a \<Longrightarrow> k \<noteq> b \<Longrightarrow> g k = f k"
    and "g a + g b = f a + f b"
  shows "sum g D = sum f D"
proof -
  have D: "D = insert a (insert b (D - {a, b}))" using assms(2,3) by blast
  have rest: "sum g (D - {a, b}) = sum f (D - {a, b})"
    by (rule sum.cong) (auto simp: assms(5))
  have "sum g D = g a + g b + sum g (D - {a, b})"
    by (subst D) (simp add: assms(1,4))
  also have "\<dots> = f a + f b + sum f (D - {a, b})"
    using rest assms(6) by simp
  also have "\<dots> = sum f D"
    by (subst (2) D) (simp add: assms(1,4))
  finally show ?thesis .
qed

lemma sum_new_zero_key:
  fixes f g :: "'a \<Rightarrow> nat"
  assumes "finite D" and "a \<notin> D" and "g a = 0" and "\<And>k. k \<in> D \<Longrightarrow> g k = f k"
  shows "sum g (insert a D) = sum f D"
proof -
  have "sum g (insert a D) = g a + sum g D" using assms(1,2) by simp
  also have "sum g D = sum f D" by (rule sum.cong) (auto simp: assms(4))
  finally show ?thesis using assms(3) by simp
qed

lemma materialise_view:
  "loadAccountObject (snd (loadOrStoreAccountObject s r (emptyAccount r)))
     = (if loadAccountObject s r = None \<and> roAccounts (readonly s) r = None
        then (loadAccountObject s)(r \<mapsto> emptyAccount r) else loadAccountObject s)"
  by (auto simp: fun_eq_iff loadAccountObject_def loadOrStoreAccountObject_def split: option.splits)

lemma materialise_total:
  assumes "finite (dom (loadAccountObject s))"
  shows "totalBalance tt (snd (loadOrStoreAccountObject s r (emptyAccount r))) = totalBalance tt s"
proof (cases "loadAccountObject s r = None \<and> roAccounts (readonly s) r = None")
  case False
  then have "loadAccountObject (snd (loadOrStoreAccountObject s r (emptyAccount r))) = loadAccountObject s"
    by (simp only: materialise_view if_False)
  then show ?thesis by (simp add: totalBalance_def)
next
  case True
  then have notin: "r \<notin> dom (loadAccountObject s)" by (simp add: domIff)
  have "(\<Sum>k \<in> insert r (dom (loadAccountObject s)).
           unat (TokenBalance (the (((loadAccountObject s)(r \<mapsto> emptyAccount r)) k)) tt))
        = (\<Sum>k \<in> dom (loadAccountObject s). unat (TokenBalance (the (loadAccountObject s k)) tt))"
    using assms notin by (intro sum_new_zero_key) (auto simp: emptyAccount_def)
  then show ?thesis using True by (simp add: totalBalance_def materialise_view)
qed

lemma lookup_view: "lookupAccount s k = Some (Some a) \<Longrightarrow> loadAccountObject s k = Some a"
  by (auto simp: lookupAccount_def loadAccountObject_def split: option.splits)

lemma transferAccountToken_success:
  assumes "transferAccountToken e s t = (None, s')" and "Amount t \<noteq> 0" and "Sender t \<noteq> Receiver t"
  obtains so ro sb rb where
    "lookupAccount (snd (loadOrStoreAccountObject s (Receiver t) (emptyAccount (Receiver t)))) (Sender t) = Some (Some so)"
    "lookupAccount (snd (loadOrStoreAccountObject s (Receiver t) (emptyAccount (Receiver t)))) (Receiver t) = Some (Some ro)"
    "safeSub (TokenBalance so (TransferTokenType t)) (Amount t) = Inr sb"
    "safeAdd (TokenBalance ro (TransferTokenType t)) (Amount t) = Inr rb"
    "s' = setDirtyAccount
            (setDirtyAccount (snd (loadOrStoreAccountObject s (Receiver t) (emptyAccount (Receiver t))))
               (Sender t) (setBalance so (TransferTokenType t) sb))
            (Receiver t) (setBalance ro (TransferTokenType t) rb)"
  using assms unfolding transferAccountToken_def Let_def
  by (auto split: option.splits sum.splits if_splits)

lemma transferAccountToken_noop:
  assumes "transferAccountToken e s t = (None, s')" and "Amount t = 0"
  shows "s' = s"
  using assms unfolding transferAccountToken_def Let_def
  by (auto split: option.splits sum.splits if_splits)


lemma safeSub_success:
  "safeSub x y = Inr z \<Longrightarrow> unat y \<le> unat x \<and> z = x - y \<and> unat z + unat y = unat x"
  by (auto simp: safeSub_def unat_sub word_le_nat_alt split: if_splits)

lemma TokenBalance_setBalance:
  "TokenBalance (setBalance a tt v) tt' = (if tt' = tt then v else TokenBalance a tt')"
  by (simp add: setBalance_def)

text \<open>
  C4, as amended. For an account transfer of \<open>amt\<close> of token type \<open>tt\<close> from \<open>s\<close> to
  \<open>r \<noteq> s\<close> that \<^verbatim>\<open>transferAccountToken\<close> applies without error: the sum of the balances
  of every token type over all accounts of the view is unchanged. When \<open>amt = 0\<close> the
  state is unchanged (the receiver is not created). When \<open>amt \<noteq> 0\<close>, the receiver is
  first created as an empty account if the view has none, the sender's balance of
  \<open>tt\<close> goes down by exactly \<open>amt\<close> and the receiver's goes up by exactly \<open>amt\<close>, and
  nothing else of the two accounts changes (\<open>setBalance\<close> writes one balance). Every
  other account is as before.
\<close>

theorem transfer_conserves_balances:
  assumes fin: "finite (dom (accounts (dirty s)))" "finite (dom (roAccounts (readonly s)))"
    and ok: "transferAccountToken e s t = (None, s')"
    and ne: "Sender t \<noteq> Receiver t"
  shows "totalBalance tt s' = totalBalance tt s
    \<and> (Amount t = 0 \<longrightarrow> s' = s)
    \<and> (Amount t \<noteq> 0 \<longrightarrow>
          (\<exists>so ro sb rb.
              loadAccountObject s (Sender t) = Some so
            \<and> ro = (case loadAccountObject s (Receiver t) of Some r \<Rightarrow> r | None \<Rightarrow> emptyAccount (Receiver t))
            \<and> loadAccountObject s' (Sender t) = Some (setBalance so (TransferTokenType t) sb)
            \<and> unat sb + unat (Amount t) = unat (TokenBalance so (TransferTokenType t))
            \<and> loadAccountObject s' (Receiver t) = Some (setBalance ro (TransferTokenType t) rb)
            \<and> unat rb = unat (TokenBalance ro (TransferTokenType t)) + unat (Amount t)))
    \<and> (\<forall>k. k \<noteq> Sender t \<and> k \<noteq> Receiver t \<longrightarrow> loadAccountObject s' k = loadAccountObject s k)"
proof (cases "Amount t = 0")
  case True
  then have "s' = s" using ok by (simp add: transferAccountToken_noop)
  then show ?thesis using True by simp
next
  case False
  let ?S = "Sender t" and ?R = "Receiver t" and ?T = "TransferTokenType t"
  let ?s1 = "snd (loadOrStoreAccountObject s ?R (emptyAccount ?R))"
  obtain so ro sb rb where
    so: "lookupAccount ?s1 ?S = Some (Some so)"
    and ro: "lookupAccount ?s1 ?R = Some (Some ro)"
    and sb: "safeSub (TokenBalance so ?T) (Amount t) = Inr sb"
    and rb: "safeAdd (TokenBalance ro ?T) (Amount t) = Inr rb"
    and s': "s' = setDirtyAccount (setDirtyAccount ?s1 ?S (setBalance so ?T sb)) ?R (setBalance ro ?T rb)"
    using ok False ne by (rule transferAccountToken_success)
  let ?V = "loadAccountObject s" and ?V1 = "loadAccountObject ?s1" and ?V' = "loadAccountObject s'"
  have v1S: "?V1 ?S = Some so" and v1R: "?V1 ?R = Some ro"
    using so ro by (simp_all add: lookup_view)
  have v': "?V' = (?V1)(?S \<mapsto> setBalance so ?T sb, ?R \<mapsto> setBalance ro ?T rb)"
    by (simp add: fun_eq_iff s' loadAccountObject_setDirtyAccount)
  have finV: "finite (dom ?V)" using fin by (rule finite_dom_view)
  have "dom ?V1 \<subseteq> insert ?R (dom ?V)"
    by (auto simp: materialise_view split: if_splits)
  then have finV1: "finite (dom ?V1)"
    using finV by (meson finite_insert finite_subset)
  have dom': "dom ?V' = dom ?V1"
    using v1S v1R by (auto simp: v')
  have sbn: "unat sb + unat (Amount t) = unat (TokenBalance so ?T)"
    using safeSub_success [OF sb] by blast
  have rbn: "unat rb = unat (TokenBalance ro ?T) + unat (Amount t)"
    using safeAdd_success [OF rb] by blast
  have pair: "unat (TokenBalance (setBalance so ?T sb) tt) + unat (TokenBalance (setBalance ro ?T rb) tt)
      = unat (TokenBalance so tt) + unat (TokenBalance ro tt)"
    using sbn rbn by (simp add: TokenBalance_setBalance)
  have "(\<Sum>k \<in> dom ?V1. unat (TokenBalance (the (?V' k)) tt))
      = (\<Sum>k \<in> dom ?V1. unat (TokenBalance (the (?V1 k)) tt))"
  proof (rule sum_two_changed [of _ ?S ?R])
    show "finite (dom ?V1)" by (rule finV1)
    show "?S \<in> dom ?V1" "?R \<in> dom ?V1" using v1S v1R by auto
    show "?S \<noteq> ?R" by (rule ne)
    show "unat (TokenBalance (the (?V' k)) tt) = unat (TokenBalance (the (?V1 k)) tt)"
      if "k \<noteq> ?S" "k \<noteq> ?R" for k
      using that by (simp add: v')
    show "unat (TokenBalance (the (?V' ?S)) tt) + unat (TokenBalance (the (?V' ?R)) tt)
        = unat (TokenBalance (the (?V1 ?S)) tt) + unat (TokenBalance (the (?V1 ?R)) tt)"
      using pair ne v1S v1R by (simp add: v')
  qed
  then have "totalBalance tt s' = totalBalance tt ?s1"
    by (simp add: totalBalance_def dom')
  then have total: "totalBalance tt s' = totalBalance tt s"
    using materialise_total [OF finV] by simp
  have vS: "?V ?S = Some so"
    using v1S ne by (auto simp: materialise_view split: if_splits)
  have vR: "ro = (case ?V ?R of Some r \<Rightarrow> r | None \<Rightarrow> emptyAccount ?R)"
    using v1R by (auto simp: materialise_view split: if_splits option.splits)
  have v'S: "?V' ?S = Some (setBalance so ?T sb)" and v'R: "?V' ?R = Some (setBalance ro ?T rb)"
    using ne by (simp_all add: v')
  have others: "\<forall>k. k \<noteq> ?S \<and> k \<noteq> ?R \<longrightarrow> ?V' k = ?V k"
    by (auto simp: v' materialise_view)
  show ?thesis
    using total False vS vR v'S v'R sbn rbn others by blast
qed


text \<open>
  The claim C4 as stated fails for the amount 0: the transfer from 1 to the absent
  account 2 succeeds and account 2 is still absent afterwards.
\<close>

theorem transfer_zero_amount_counterexample:
  "Sender (transferOf 1 2 0 1) \<noteq> Receiver (transferOf 1 2 0 1)
   \<and> loadAccountObject accountsState 2 = None
   \<and> transferAccountToken exampleEnv accountsState (transferOf 1 2 0 1) = (None, accountsState)
   \<and> loadAccountObject (snd (transferAccountToken exampleEnv accountsState (transferOf 1 2 0 1))) 2 = None"
  by (simp add: transferAccountToken_def exampleEnv_def transferOf_def loadAccountObject_def
      accountsState_def newMetaIndex_def)

lemma accountsState_transfer_30:
  "fst (transferAccountToken exampleEnv accountsState (transferOf 1 2 30 1)) = None
   \<and> loadAccountStableBalance (snd (transferAccountToken exampleEnv accountsState (transferOf 1 2 30 1))) 1 = Some 70
   \<and> loadAccountStableBalance (snd (transferAccountToken exampleEnv accountsState (transferOf 1 2 30 1))) 2 = Some 30
   \<and> finite (dom (accounts (dirty accountsState)))
   \<and> finite (dom (roAccounts (readonly accountsState)))
   \<and> Sender (transferOf 1 2 30 1) \<noteq> Receiver (transferOf 1 2 30 1)"
  by (simp add: transferAccountToken_def exampleEnv_def accountsState_def
      transferOf_def newMetaIndex_def loadOrStoreAccountObject_def lookupAccount_def
      emptyAccount_def acct_def safeSub_def safeAdd_def setDirtyAccount_def setBalance_def
      loadAccountStableBalance_def)

theorem transfer_conserves_balances_witness:
  "fst (transferAccountToken exampleEnv accountsState (transferOf 1 2 30 1)) = None
   \<and> loadAccountStableBalance (snd (transferAccountToken exampleEnv accountsState (transferOf 1 2 30 1))) 1 = Some 70
   \<and> loadAccountStableBalance (snd (transferAccountToken exampleEnv accountsState (transferOf 1 2 30 1))) 2 = Some 30
   \<and> totalBalance Particle (snd (transferAccountToken exampleEnv accountsState (transferOf 1 2 30 1)))
       = totalBalance Particle accountsState
   \<and> totalBalance Wave (snd (transferAccountToken exampleEnv accountsState (transferOf 1 2 30 1)))
       = totalBalance Wave accountsState"
proof -
  let ?r = "transferAccountToken exampleEnv accountsState (transferOf 1 2 30 1)"
  have run: "?r = (None, snd ?r)"
    using accountsState_transfer_30 by (simp add: prod_eq_iff)
  have fin: "finite (dom (accounts (dirty accountsState)))"
    "finite (dom (roAccounts (readonly accountsState)))"
    and ne: "Sender (transferOf 1 2 30 1) \<noteq> Receiver (transferOf 1 2 30 1)"
    using accountsState_transfer_30 by blast+
  show ?thesis
    using transfer_conserves_balances [OF fin run ne, of Particle]
      transfer_conserves_balances [OF fin run ne, of Wave] accountsState_transfer_30
    by blast
qed

section \<open>What the code does where it departs from the spec\<close>

subsection \<open>The sender check of a transfer\<close>

text \<open>
  When the signee hashes to an address other than the sender,
  \<^verbatim>\<open>transferAccountToken\<close> returns \<open>InvalidSender\<close> only for a no-op transfer; any
  other transfer is treated exactly as if the signee were genuine.
\<close>

lemma transferAccountToken_invalid_sender_iff:
  assumes "pubKeyHash e (TransferSignee t) = Some k" and "k \<noteq> Sender t"
  shows "fst (transferAccountToken e s t) = Some ErrInvalidSender
     \<longleftrightarrow> Sender t = Receiver t \<or> Amount t = 0"
  using assms
  by (auto simp: transferAccountToken_def Let_def split: option.splits sum.splits
      dest: safeAdd_error safeSub_error)

lemma transferAccountToken_ignores_signee:
  assumes "pubKeyHash e (TransferSignee t) = Some k" and "pubKeyHash e x = Some k'"
    and "Sender t \<noteq> Receiver t" and "Amount t \<noteq> 0"
  shows "transferAccountToken e s (t\<lparr>TransferSignee := x\<rparr>) = transferAccountToken e s t"
  using assms
  by (simp add: transferAccountToken_def Let_def cong: option.case_cong sum.case_cong)

text \<open>
  C3. The claim: a Transfer whose signee does not hash to the declared sender fails
  with \<open>InvalidSender\<close> and changes no balance. The code sets \<open>err\<close> and does not
  return. Here the signee hashes to 3 and the declared sender is 1: the transfer of 30
  is applied (balances 100 and none before, 70 and 30 after) and \<^verbatim>\<open>apply\<close> returns no
  error. On the chain path (sender 9, a user of chain9 whose deposit has reached the
  minimum) the forged transfer returns no error either.
\<close>

theorem forged_sender_transfer_applies:
  "pubKeyHash exampleEnv (TransferSignee (transferOf 1 2 30 3)) = Some 3
   \<and> Sender (transferOf 1 2 30 3) = 1
   \<and> applyTransaction exampleEnv accountsState
        (Tx (txMethods 1 0 TransactionTypeTransfer) (TransferTx (transferOf 1 2 30 3)))
      = transferAccountToken exampleEnv accountsState (transferOf 1 2 30 3)
   \<and> fst (transferAccountToken exampleEnv accountsState (transferOf 1 2 30 3)) = None
   \<and> loadAccountStableBalance accountsState 1 = Some 100
   \<and> loadAccountStableBalance (snd (transferAccountToken exampleEnv accountsState (transferOf 1 2 30 3))) 1
       = Some 70
   \<and> loadAccountStableBalance (snd (transferAccountToken exampleEnv accountsState (transferOf 1 2 30 3))) 2
       = Some 30
   \<and> fst (applyTx exampleEnv accountsState
        (Tx (txMethods 1 0 TransactionTypeTransfer) (TransferTx (transferOf 1 2 30 3)))) = None
   \<and> pubKeyHash exampleEnv (TransferSignee (transferOf 9 2 4 3)) = Some 3
   \<and> Sender (transferOf 9 2 4 3) = 9
   \<and> fst (transferSQLChainTokenBalance exampleEnv
         (chainState (chainProfile 1 [chainUser 9 10 0] [chainMiner 5 0 0])) (transferOf 9 2 4 3)) = None"
  by (simp add: applyTx_def txMethods_def nextNonce_def increaseNonce_def
      transferSQLChainTokenBalance_def transferAccountToken_def exampleEnv_def accountsState_def
      transferOf_def loadSQLChainObject_def newMetaIndex_def loadOrStoreAccountObject_def
      lookupAccount_def emptyAccount_def acct_def safeSub_def safeAdd_def setDirtyAccount_def
      setBalance_def loadAccountStableBalance_def chainState_def chainProfile_def chainUser_def
      chainMiner_def creditUser_def minDeposit_def loadOrStoreSQLChainObject_def Let_def)

subsection \<open>The transfer into a chain\<close>

text \<open>
  What the loop computes for the sender's user entry, in the copy of the profile:
  below the minimum deposit the whole amount is added to the deposit (in 64-bit
  arithmetic), from the minimum on it is safe-added to the advance payment. A chain of
  another token type gives \<open>WrongTokenType\<close>. The state is not changed
  (\<open>transferSQLChainTokenBalance_state\<close>).
\<close>

lemma creditUser_split:
  assumes "ChainTokenType c = TransferTokenType t"
  shows "creditUser e c t err u =
     (if Deposit u < minDeposit e (GasPrice c) (of_nat (length (Miners c)))
      then (err, Some (u\<lparr>Deposit := Deposit u + Amount t\<rparr>))
      else (case safeAdd (AdvancePayment u) (Amount t) of
              Inl x \<Rightarrow> (Some x, None)
            | Inr v \<Rightarrow> (None, Some (u\<lparr>AdvancePayment := v\<rparr>))))"
  using assms by (simp add: creditUser_def Let_def)

lemma creditUsers_wrong_token:
  assumes "ChainTokenType c \<noteq> TransferTokenType t" and "Sender t \<in> UserAddress ` set us"
  shows "creditUsers e c t err us = Some (Some ErrWrongTokenType, None)"
  using assms(2) by (induction us) (auto simp: creditUser_def assms(1))

lemma transferSQLChainTokenBalance_wrong_token:
  assumes "pubKeyHash e (TransferSignee t) = Some k"
    and "loadSQLChainObject s (databaseID e (Sender t)) = Some c"
    and "Sender t \<in> UserAddress ` set (Users c)"
    and "ChainTokenType c \<noteq> TransferTokenType t"
  shows "transferSQLChainTokenBalance e s t = (Some ErrWrongTokenType, s)"
  using assms by (simp add: transferSQLChainTokenBalance_def Let_def creditUsers_wrong_token)

text \<open>
  C7. The claim: the amount of a transfer into a chain goes to the user's deposit
  below the minimum deposit and to the advance payment from there on. The code
  computes exactly that in the copy that \<^verbatim>\<open>loadSQLChainObject\<close> returned (\<open>creditUser\<close>:
  deposit 0 becomes 4 under a minimum of 10; advance payment 7 becomes 11 once the
  deposit is 10), and then hands the copy to \<^verbatim>\<open>loadOrStoreSQLChainObject\<close>, which
  stores nothing because the chain exists: the state is unchanged, the stored deposit
  is still 0 and the stored advance payment still 7.
\<close>

theorem sqlchain_transfer_not_stored:
  "pubKeyHash exampleEnv (TransferSignee (transferOf 9 2 4 9)) = Some (Sender (transferOf 9 2 4 9))
   \<and> minDeposit exampleEnv (GasPrice (chainProfile 1 [chainUser 9 0 0] [chainMiner 5 0 0]))
        (of_nat (length (Miners (chainProfile 1 [chainUser 9 0 0] [chainMiner 5 0 0])))) = 10
   \<and> creditUser exampleEnv (chainProfile 1 [chainUser 9 0 0] [chainMiner 5 0 0]) (transferOf 9 2 4 9) None
        (chainUser 9 0 0) = (None, Some (chainUser 9 4 0))
   \<and> transferSQLChainTokenBalance exampleEnv (chainState (chainProfile 1 [chainUser 9 0 0] [chainMiner 5 0 0]))
        (transferOf 9 2 4 9)
      = (None, chainState (chainProfile 1 [chainUser 9 0 0] [chainMiner 5 0 0]))
   \<and> map_option (\<lambda>p. map Deposit (Users p))
        (loadSQLChainObject
           (snd (transferSQLChainTokenBalance exampleEnv
                  (chainState (chainProfile 1 [chainUser 9 0 0] [chainMiner 5 0 0])) (transferOf 9 2 4 9)))
           ''chain9'') = Some [0]
   \<and> creditUser exampleEnv (chainProfile 1 [chainUser 9 10 7] [chainMiner 5 0 0]) (transferOf 9 2 4 9) None
        (chainUser 9 10 7) = (None, Some (chainUser 9 10 11))
   \<and> map_option (\<lambda>p. map AdvancePayment (Users p))
        (loadSQLChainObject
           (snd (transferSQLChainTokenBalance exampleEnv
                  (chainState (chainProfile 1 [chainUser 9 10 7] [chainMiner 5 0 0])) (transferOf 9 2 4 9)))
           ''chain9'') = Some [7]"
  by (simp add: transferSQLChainTokenBalance_def exampleEnv_def
      transferOf_def loadSQLChainObject_def newMetaIndex_def safeAdd_def
      chainState_def chainProfile_def chainUser_def
      chainMiner_def creditUser_def minDeposit_def loadOrStoreSQLChainObject_def Let_def)

subsection \<open>Removing a user\<close>

text \<open>
  The loop of \<^verbatim>\<open>deleteSQLChainUser\<close> panics exactly when a user with the address
  stands before the last position; otherwise it returns the list, without its last
  user when that one has the address.
\<close>

lemma deleteUserStep_no_match:
  "(\<forall>j \<in> set js. \<exists>v. arr ! j = Some v \<and> UserAddress v \<noteq> addr) \<Longrightarrow>
   fold (deleteUserStep addr) js (None, arr, n) = (None, arr, n)"
  by (induction js) (auto simp: deleteUserStep_def)

lemma poisoned_step: "poisoned N st \<Longrightarrow> j < N \<Longrightarrow> poisoned N (deleteUserStep addr j st)"
  by (auto simp: poisoned_def deleteUserStep_def split: prod.splits option.splits)

lemma poisoned_fold:
  "poisoned N st \<Longrightarrow> (\<forall>j \<in> set js. j < N) \<Longrightarrow> poisoned N (fold (deleteUserStep addr) js st)"
  by (induction js arbitrary: st) (simp_all add: poisoned_step)

lemma poisoned_last: "poisoned N st \<Longrightarrow> fst (deleteUserStep addr N st) = Some Panic"
  by (auto simp: poisoned_def deleteUserStep_def split: prod.splits option.splits)

lemma deleteUserLoop_panics:
  assumes "Suc i < length users" and "UserAddress (users ! i) = addr"
  shows "fst (deleteUserLoop addr users) = Some Panic"
proof -
  let ?n = "length users"
  let ?arr = "map Some users"
  define i0 where "i0 = (LEAST i. Suc i < ?n \<and> UserAddress (users ! i) = addr)"
  have i0: "Suc i0 < ?n" "UserAddress (users ! i0) = addr"
    using LeastI [of "\<lambda>i. Suc i < ?n \<and> UserAddress (users ! i) = addr" i] assms
    by (simp_all add: i0_def)
  have before: "UserAddress (users ! j) \<noteq> addr" if "j < i0" for j
    using not_less_Least [of j "\<lambda>i. Suc i < ?n \<and> UserAddress (users ! i) = addr"] that i0(1)
    by (auto simp: i0_def)
  have split: "[0..<?n] = [0..<i0] @ i0 # [Suc i0..<?n - 1] @ [?n - 1]"
  proof -
    have "[0..<?n] = [0..<i0] @ [i0..<?n]"
      using i0(1) by (metis Suc_lessD less_imp_le_nat upt_add_eq_append le0 le_add_diff_inverse)
    also have "[i0..<?n] = i0 # [Suc i0..<?n]"
      using i0(1) by (simp add: upt_conv_Cons)
    also have "[Suc i0..<?n] = [Suc i0..<?n - 1] @ [?n - 1]"
      using i0(1) by (metis Suc_diff_1 Suc_lessD not_less_eq upt_Suc_append zero_less_Suc less_trans_Suc linorder_not_less)
    finally show ?thesis by simp
  qed
  have s1: "fold (deleteUserStep addr) [0..<i0] (None, ?arr, ?n) = (None, ?arr, ?n)"
    using before i0(1) by (intro deleteUserStep_no_match) auto
  have s2: "poisoned (?n - 1) (deleteUserStep addr i0 (None, ?arr, ?n))"
    using i0 by (auto simp: deleteUserStep_def poisoned_def)
  have s3: "poisoned (?n - 1)
      (fold (deleteUserStep addr) [Suc i0..<?n - 1] (deleteUserStep addr i0 (None, ?arr, ?n)))"
    using s2 by (rule poisoned_fold) simp
  have "fst (fold (deleteUserStep addr) ([0..<i0] @ i0 # [Suc i0..<?n - 1] @ [?n - 1]) (None, ?arr, ?n))
      = Some Panic"
    by (simp only: fold_append fold_simps o_apply id_apply s1 poisoned_last [OF s3])
  then have "fst (fold (deleteUserStep addr) [0..<?n] (None, ?arr, ?n)) = Some Panic"
    by (simp only: split [symmetric])
  then show ?thesis by (auto simp: deleteUserLoop_def split: prod.splits)
qed

lemma deleteUserLoop_returns:
  assumes "\<forall>i. Suc i < length users \<longrightarrow> UserAddress (users ! i) \<noteq> addr"
  shows "deleteUserLoop addr users
      = (None, if users \<noteq> [] \<and> UserAddress (last users) = addr then butlast users else users)"
proof (cases users rule: rev_cases)
  case Nil
  then show ?thesis by (simp add: deleteUserLoop_def)
next
  case (snoc us u)
  let ?n = "length users"
  let ?arr = "map Some users"
  have n: "?n = Suc (length us)" by (simp add: snoc)
  have s1: "fold (deleteUserStep addr) [0..<length us] (None, ?arr, Suc (length us))
      = (None, ?arr, Suc (length us))"
    using assms by (intro deleteUserStep_no_match) (auto simp: n)
  have last: "?arr ! length us = Some u" by (simp add: snoc nth_append)
  have "fold (deleteUserStep addr) [0..<?n] (None, ?arr, ?n)
      = deleteUserStep addr (length us) (None, ?arr, ?n)"
    by (simp add: n s1)
  also have "\<dots> = (if UserAddress u = addr then (None, (?arr)[length us := None], length us)
                    else (None, ?arr, ?n))"
    using last by (simp add: deleteUserStep_def n)
  finally have "fold (deleteUserStep addr) [0..<?n] (None, ?arr, ?n)
      = (if UserAddress u = addr then (None, (?arr)[length us := None], length us)
         else (None, ?arr, ?n))" .
  then show ?thesis
    by (simp add: deleteUserLoop_def snoc comp_def)
qed

theorem deleteUserLoop_panics_iff:
  "fst (deleteUserLoop addr users) = Some Panic
     \<longleftrightarrow> (\<exists>i. Suc i < length users \<and> UserAddress (users ! i) = addr)"
  using deleteUserLoop_panics [of _ users addr] deleteUserLoop_returns [of users addr]
  by (cases "\<exists>i. Suc i < length users \<and> UserAddress (users ! i) = addr") auto

text \<open>
  C10. The claim: \<^verbatim>\<open>deleteSQLChainUser\<close> never panics. With the users 1 and 2 stored,
  deleting user 1 (not the last of the list) moves user 2 to index 0, sets index 1 of
  the backing array to nil and goes on to index 1, where \<open>v.Address\<close> dereferences
  nil: the call panics, and the copy of the profile that it has put into dirty is left
  with the list of user 2. Deleting user 2, the last of the list, returns the list of
  user 1.
\<close>

theorem delete_first_user_panics:
  "loadSQLChainObject (chainState (chainProfile 1 [chainUser 1 0 0, chainUser 2 0 0] [])) ''chain9''
     = Some (chainProfile 1 [chainUser 1 0 0, chainUser 2 0 0] [])
   \<and> deleteUserLoop 1 [chainUser 1 0 0, chainUser 2 0 0] = (Some Panic, [chainUser 2 0 0])
   \<and> fst (deleteSQLChainUser (chainState (chainProfile 1 [chainUser 1 0 0, chainUser 2 0 0] [])) ''chain9'' 1)
       = Some Panic
   \<and> loadSQLChainObject
       (snd (deleteSQLChainUser (chainState (chainProfile 1 [chainUser 1 0 0, chainUser 2 0 0] [])) ''chain9'' 1))
       ''chain9''
       = Some (chainProfile 1 [chainUser 2 0 0] [])
   \<and> deleteUserLoop 2 [chainUser 1 0 0, chainUser 2 0 0] = (None, [chainUser 1 0 0])"
  by (simp add: deleteSQLChainUser_def chainState_def chainProfile_def chainUser_def newMetaIndex_def
      deleteUserLoop_def deleteUserStep_def loadSQLChainObject_def setDirtyDatabase_def)

end
